theory Spec2Isabelle
  imports Complex_Main "HOL-Library.AList"
begin

section \<open>Canonical enums (types/common.ts)\<close>

datatype PaymentStatus =
    PENDING | PROCESSING | COMPLETED | FAILED | CANCELLED | REFUNDED | PARTIALLY_REFUNDED

text \<open>
  \<^verbatim>\<open>PaymentMethod\<close> and \<^verbatim>\<open>Currency\<close> are string enums. Their values travel as plain
  strings (\<^verbatim>\<open>supportsPaymentMethod(method: string)\<close>, \<^verbatim>\<open>currency as any\<close>), so they are
  modelled as strings, the members of the enums as constants.
\<close>

definition CARD :: string where "CARD = ''card''"
definition EFT :: string where "EFT = ''eft''"
definition MOBILE_WALLET :: string where "MOBILE_WALLET = ''mobile_wallet''"
definition BANK_TRANSFER :: string where "BANK_TRANSFER = ''bank_transfer''"
definition CRYPTOCURRENCY :: string where "CRYPTOCURRENCY = ''cryptocurrency''"

definition PaymentMethod_values :: "string list" where
  "PaymentMethod_values = [CARD, EFT, MOBILE_WALLET, BANK_TRANSFER, CRYPTOCURRENCY]"

definition Currency_values :: "string list" where
  "Currency_values = [''ZAR'', ''USD'', ''EUR'', ''GBP'']"

section \<open>Peach status classification table (gateways/peach/types.ts)\<close>

definition SUCCESS_CODES :: "string list" where
  "SUCCESS_CODES =
     [''000.000.000'', ''000.000.100'', ''000.100.110'', ''000.100.111'', ''000.100.112'']"

definition PENDING_CODES :: "string list" where
  "PENDING_CODES = [''000.200.000'', ''800.400.500'', ''900.100.300'']"

definition REJECTED_CODES :: "string list" where
  "REJECTED_CODES =
     [''000.400.000'', ''000.400.010'', ''000.400.020'', ''000.400.030'', ''000.400.040'',
      ''000.400.050'', ''000.400.060'', ''000.400.070'', ''000.400.080'', ''000.400.090'',
      ''000.400.100'']"

definition ERROR_CODES :: "string list" where
  "ERROR_CODES = [''200.300.404'', ''800.300.401'', ''900.400.500'']"

text \<open>\<^verbatim>\<open>Array.prototype.includes\<close> on an array of strings is list membership.\<close>

definition array_includes :: "'a list \<Rightarrow> 'a \<Rightarrow> bool" where
  "array_includes xs x = (x \<in> set xs)"

definition mapPaymentStatus :: "string \<Rightarrow> PaymentStatus" where
  "mapPaymentStatus gatewayStatus =
     (if array_includes SUCCESS_CODES gatewayStatus then COMPLETED
      else if array_includes PENDING_CODES gatewayStatus then PROCESSING
      else if array_includes REJECTED_CODES gatewayStatus then FAILED
      else if array_includes ERROR_CODES gatewayStatus then FAILED
      else PENDING)"

section \<open>JavaScript values\<close>

text \<open>
  A JavaScript \<^verbatim>\<open>number\<close>: every finite double is a rational; the three non-finite
  values are kept apart. Counts (retry budget, attempt number, timeout and delay in
  milliseconds, HTTP status) are integers in every use the code makes of them and are
  modelled as \<open>int\<close> and \<open>nat\<close>.
\<close>

datatype number = Finite rat | NaN | PosInfinity | NegInfinity

text \<open>Truthiness of an optional string: \<^verbatim>\<open>undefined\<close> and the empty string are falsy.\<close>

definition truthy :: "string option \<Rightarrow> bool" where
  "truthy s = (case s of None \<Rightarrow> False | Some v \<Rightarrow> v \<noteq> [])"

text \<open>\<^verbatim>\<open>a || b\<close> on numbers: \<^verbatim>\<open>undefined\<close> and \<open>0\<close> are falsy.\<close>

definition or_default :: "int option \<Rightarrow> int \<Rightarrow> int" where
  "or_default a b = (case a of None \<Rightarrow> b | Some v \<Rightarrow> if v = 0 then b else v)"

text \<open>Decimal rendering of a natural number, as a template literal prints an integer.\<close>

fun decimal :: "nat \<Rightarrow> string" where
  "decimal n =
     (if n < 10 then [''0123456789'' ! n]
      else decimal (n div 10) @ [''0123456789'' ! (n mod 10)])"

declare decimal.simps [simp del]

text \<open>
  \<^verbatim>\<open>Number.prototype.toFixed(2)\<close>, after its definition in ECMAScript: a non-finite number
  prints as its name; otherwise the sign is split off, a magnitude of at least \<open>10^21\<close>
  prints as \<^verbatim>\<open>ToString\<close> does (exponent notation, left to the platform), and a smaller
  one is rounded to the nearest hundredth, the larger one on a tie, and printed with
  at least one digit before the point and two after it.
\<close>

definition toFixed2 :: "(rat \<Rightarrow> string) \<Rightarrow> number \<Rightarrow> string" where
  "toFixed2 Number_toString x =
     (case x of
        NaN \<Rightarrow> ''NaN''
      | PosInfinity \<Rightarrow> ''Infinity''
      | NegInfinity \<Rightarrow> ''-Infinity''
      | Finite r \<Rightarrow>
          (let s = (if r < 0 then ''-'' else '''');
               a = \<bar>r\<bar>
           in if 10 ^ 21 \<le> a then s @ Number_toString a
              else
                (let n = nat \<lfloor>a * 100 + 1 / 2\<rfloor>;
                     m = decimal n;
                     m' = (if length m \<le> 2 then replicate (3 - length m) CHR ''0'' @ m else m);
                     k = length m'
                 in s @ take (k - 2) m' @ ''.'' @ drop (k - 2) m')))"

section \<open>The platform\<close>

text \<open>
  What the code takes from its libraries and its runtime and does not define itself:
  the format checks and the error message of the schema library, Base64, the clock and
  the random generator behind \<^verbatim>\<open>generateReference\<close>, \<^verbatim>\<open>parseFloat\<close>, the exponent
  notation of \<^verbatim>\<open>ToString\<close> and the \<^verbatim>\<open>NODE_ENV\<close> variable. Every function of the model
  that needs one of them takes the platform as a parameter; nothing is assumed of it.
\<close>

record platform =
  z_url :: "string \<Rightarrow> bool"
  z_email :: "string \<Rightarrow> bool"
  z_multipleOf_cent :: "number \<Rightarrow> bool"
  z_message :: "string list \<Rightarrow> string"
  base64 :: "string \<Rightarrow> string"
  Date_now :: nat
  Math_random36 :: string
  parseFloat :: "string \<Rightarrow> number"
  Number_toString :: "rat \<Rightarrow> string"
  NODE_ENV :: "string option"

section \<open>Errors (errors.ts)\<close>

text \<open>
  One constructor per error class that the code raises. The arguments are those of the
  class constructor: \<open>ValidationError message field\<close>, \<open>PaymentError message paymentId
  gatewayCode cause\<close>, \<open>NetworkError message statusCode\<close> (its raw response body and its
  cause are library values that the code never reads), \<open>ConfigurationError message
  parameter cause\<close>, \<open>RefundError message paymentId refundId gatewayCode cause\<close>.
\<close>

datatype error =
    ValidationError string "string option"
  | PaymentError string "string option" "string option" "error option"
  | NetworkError string "nat option"
  | ConfigurationError string "string option" "error option"
  | RefundError string "string option" "string option" "string option" "error option"

fun message :: "error \<Rightarrow> string" where
  "message (ValidationError m _) = m"
| "message (PaymentError m _ _ _) = m"
| "message (NetworkError m _) = m"
| "message (ConfigurationError m _ _) = m"
| "message (RefundError m _ _ _ _) = m"

section \<open>Transport (utils/http.ts)\<close>

record HttpClientConfig =
  baseURL :: "string option"
  cfg_timeout :: "int option"
  cfg_retries :: "int option"
  cfg_headers :: "(string \<times> string) list"

text \<open>The axios instance of a client and the client's retry budget.\<close>

record AxiosInstance =
  ax_baseURL :: "string option"
  ax_timeout :: int
  ax_headers :: "(string \<times> string) list"

record HttpClient =
  client :: AxiosInstance
  retries :: int

text \<open>
  The world outside the program: how many HTTP requests have been sent, the delays
  slept so far (milliseconds, oldest first), the transports constructed so far and the
  lines written to the console.
\<close>

record world =
  requests :: nat
  sleeps :: "nat list"
  transports :: "HttpClient list"
  console :: "string list"

datatype http_method = GET | POST | PUT | PATCH | DELETE

fun toUpperCase_method :: "http_method \<Rightarrow> string" where
  "toUpperCase_method GET = ''GET''"
| "toUpperCase_method POST = ''POST''"
| "toUpperCase_method PUT = ''PUT''"
| "toUpperCase_method PATCH = ''PATCH''"
| "toUpperCase_method DELETE = ''DELETE''"

text \<open>
  What axios hands to the response interceptor: a response with its data, or an error
  that carries the response of the server (its status and the \<^verbatim>\<open>message\<close> of its body,
  when there is one), or only the request, or neither.
\<close>

datatype 'a axios_result =
    AxiosResponse 'a
  | AxiosError "(nat \<times> string option) option" bool string

text \<open>
  The remote side: the answer to the \<open>k\<close>-th request of the run, sent through the given
  axios instance with the given method, URL and body.
\<close>

type_synonym ('b, 'a) remote =
  "nat \<Rightarrow> AxiosInstance \<Rightarrow> http_method \<Rightarrow> string \<Rightarrow> 'b option \<Rightarrow> 'a axios_result"

type_synonym 'a io = "world \<Rightarrow> (error + 'a) \<times> world"

text \<open>
  \<^verbatim>\<open>Object spread\<close> of headers: a later entry replaces an earlier one with the same key
  in place, a new key is appended.
\<close>

definition spread :: "(string \<times> string) list \<Rightarrow> (string \<times> string) list \<Rightarrow> (string \<times> string) list" where
  "spread base extra = fold (\<lambda>(k, v). AList.update k v) extra base"

definition HttpClient_new :: "HttpClientConfig \<Rightarrow> world \<Rightarrow> HttpClient \<times> world" where
  "HttpClient_new config w =
     (let c = \<lparr> client = \<lparr> ax_baseURL = baseURL config,
                             ax_timeout = or_default (cfg_timeout config) 30000,
                             ax_headers = spread [(''Content-Type'', ''application/json''),
                                                  (''User-Agent'', ''@paylens/sdk'')]
                                                 (cfg_headers config) \<rparr>,
                  retries = or_default (cfg_retries config) 3 \<rparr>
      in (c, w\<lparr>transports := transports w @ [c]\<rparr>))"

text \<open>The request interceptor logs in development and passes the request on.\<close>

definition requestInterceptor :: "platform \<Rightarrow> http_method \<Rightarrow> string \<Rightarrow> world \<Rightarrow> world" where
  "requestInterceptor P m url w =
     (if NODE_ENV P = Some ''development''
      then w\<lparr>console := console w @ [''[PayLens SDK] '' @ toUpperCase_method m @ '' '' @ url]\<rparr>
      else w)"

text \<open>The response interceptor turns every axios error into a \<open>NetworkError\<close>.\<close>

definition responseInterceptor :: "'a axios_result \<Rightarrow> error + 'a" where
  "responseInterceptor r =
     (case r of
        AxiosResponse d \<Rightarrow> Inr d
      | AxiosError response request msg \<Rightarrow>
          (case response of
             Some (status, data_message) \<Rightarrow>
               Inl (NetworkError
                      (''HTTP '' @ decimal status @ '': '' @
                         (if truthy data_message then the data_message else msg))
                      (Some status))
           | None \<Rightarrow>
               if request then Inl (NetworkError ''No response received from server'' None)
               else Inl (NetworkError ''Request setup failed'' None)))"

text \<open>One request through the axios instance of a client: \<^verbatim>\<open>this.client.get(url)\<close> and so on.\<close>

definition axios_request ::
  "platform \<Rightarrow> ('b, 'a) remote \<Rightarrow> AxiosInstance \<Rightarrow> http_method \<Rightarrow> string \<Rightarrow> 'b option \<Rightarrow> 'a io" where
  "axios_request P remote inst m url body w =
     (let w1 = requestInterceptor P m url w;
          r = remote (requests w1) inst m url body
      in (responseInterceptor r, w1\<lparr>requests := Suc (requests w1)\<rparr>))"

definition shouldRetry :: "error \<Rightarrow> bool" where
  "shouldRetry err =
     (case err of
        NetworkError _ statusCode \<Rightarrow>
          (case statusCode of None \<Rightarrow> True | Some s \<Rightarrow> s = 0 \<or> 500 \<le> s)
      | _ \<Rightarrow> False)"

text \<open>
  The attempt number is at least 1: \<^verbatim>\<open>executeWithRetry\<close> is private, starts at 1 and
  only counts up.
\<close>

definition calculateRetryDelay :: "nat \<Rightarrow> nat" where
  "calculateRetryDelay attempt = min (1000 * 2 ^ (attempt - 1)) 10000"

definition sleep :: "nat \<Rightarrow> world \<Rightarrow> world" where
  "sleep ms w = w\<lparr>sleeps := sleeps w @ [ms]\<rparr>"

function executeWithRetry :: "int \<Rightarrow> 'a io \<Rightarrow> nat \<Rightarrow> 'a io" where
  "executeWithRetry budget operation attempt w =
     (case operation w of
        (Inr data, w1) \<Rightarrow> (Inr data, w1)
      | (Inl err, w1) \<Rightarrow>
          if int attempt < budget \<and> shouldRetry err
          then executeWithRetry budget operation (attempt + 1)
                 (sleep (calculateRetryDelay attempt) w1)
          else (Inl err, w1))"
  by pat_completeness auto
termination
  by (relation "measure (\<lambda>(budget, operation, attempt, w). nat (budget - int attempt))") auto

declare executeWithRetry.simps [simp del]

definition HttpClient_get :: "platform \<Rightarrow> ('b, 'a) remote \<Rightarrow> HttpClient \<Rightarrow> string \<Rightarrow> 'a io" where
  "HttpClient_get P remote c url =
     executeWithRetry (retries c) (axios_request P remote (client c) GET url None) 1"

definition HttpClient_post ::
  "platform \<Rightarrow> ('b, 'a) remote \<Rightarrow> HttpClient \<Rightarrow> string \<Rightarrow> 'b option \<Rightarrow> 'a io" where
  "HttpClient_post P remote c url body =
     executeWithRetry (retries c) (axios_request P remote (client c) POST url body) 1"

section \<open>Canonical model (types/common.ts)\<close>

record Amount =
  "value" :: number
  currency :: string

record Customer =
  customer_id :: "string option"
  email :: string
  firstName :: "string option"
  lastName :: "string option"
  phone :: "string option"

record BillingAddress =
  line1 :: string
  line2 :: "string option"
  city :: string
  state :: "string option"
  postalCode :: string
  country :: string

record CardDetails =
  card_number :: string
  expiryMonth :: string
  expiryYear :: string
  cvv :: string
  holderName :: "string option"

record PaymentRequest =
  amount :: Amount
  customer :: Customer
  paymentMethod :: string
  reference :: "string option"
  description :: "string option"
  metadata :: "(string \<times> string) list option"
  billingAddress :: "BillingAddress option"
  cardDetails :: "CardDetails option"
  returnUrl :: "string option"
  webhookUrl :: "string option"

record RefundRequest =
  paymentId :: string
  refund_amount :: "Amount option"
  reason :: "string option"
  refund_reference :: "string option"

record PaymentGatewayConfig =
  base_apiUrl :: "string option"
  base_sandbox :: bool
  base_timeout :: "int option"
  base_retries :: "int option"

section \<open>Peach wire model (gateways/peach/types.ts)\<close>

definition SANDBOX :: string where "SANDBOX = ''sandbox''"
definition PRODUCTION :: string where "PRODUCTION = ''production''"

text \<open>
  The \<^verbatim>\<open>environment\<close> of a configuration is typed as the enum but arrives unchecked
  (the tests pass \<^verbatim>\<open>'invalid' as any\<close>), so it is an optional string here.
\<close>

record PeachPaymentsConfig =
  entityId :: string
  username :: string
  password :: string
  environment :: "string option"
  peach_timeout :: "int option"
  peach_retries :: "int option"
  apiUrl :: "string option"
  sandbox :: "bool option"

definition PEACH_API_URLS :: "(string \<times> string) list" where
  "PEACH_API_URLS =
     [(SANDBOX, ''https://testapi-v2.peachpayments.com''),
      (PRODUCTION, ''https://api-v2.peachpayments.com'')]"

record PeachCustomer =
  merchantCustomerId :: "string option"
  givenName :: "string option"
  surname :: "string option"
  wire_email :: "string option"
  wire_phone :: "string option"

record PeachBilling =
  street1 :: string
  wire_city :: string
  wire_state :: "string option"
  postcode :: string
  wire_country :: string

record PeachCard =
  wire_number :: string
  holder :: string
  wire_expiryMonth :: string
  wire_expiryYear :: string
  wire_cvv :: string

record PeachPaymentRequest =
  req_entityId :: string
  req_amount :: string
  req_currency :: string
  req_paymentType :: string
  req_testMode :: "string option"
  merchantTransactionId :: "string option"
  req_customer :: "PeachCustomer option"
  billing :: "PeachBilling option"
  card :: "PeachCard option"
  shopperResultUrl :: "string option"
  notificationUrl :: "string option"

record PeachResult =
  code :: string
  result_description :: string

record PeachResultDetails =
  ExtendedDescription :: "string option"
  AcquirerResponse :: "string option"

record PeachResponseCard =
  bin :: string
  last4Digits :: string
  card_holder :: string
  card_expiryMonth :: string
  card_expiryYear :: string

record PeachPaymentResponse =
  pay_id :: string
  pay_paymentType :: string
  pay_paymentBrand :: "string option"
  pay_amount :: string
  pay_currency :: string
  pay_descriptor :: "string option"
  pay_result :: PeachResult
  pay_resultDetails :: "PeachResultDetails option"
  pay_card :: "PeachResponseCard option"
  pay_risk_score :: "string option"
  pay_buildNumber :: string
  pay_timestamp :: string
  pay_ndc :: string
  pay_redirectUrl :: "string option"

record PeachRefundRequest =
  rfq_entityId :: string
  rfq_amount :: string
  rfq_currency :: string
  rfq_paymentType :: string
  rfq_testMode :: "string option"

record PeachRefundResponse =
  rfd_id :: string
  rfd_paymentType :: string
  rfd_amount :: string
  rfd_currency :: string
  rfd_result :: PeachResult
  rfd_buildNumber :: string
  rfd_timestamp :: string
  rfd_ndc :: string

record PeachStatusResponse =
  st_id :: string
  st_paymentType :: string
  st_paymentBrand :: "string option"
  st_amount :: string
  st_currency :: string
  st_descriptor :: "string option"
  st_result :: PeachResult
  st_resultDetails :: "PeachResultDetails option"
  st_buildNumber :: string
  st_timestamp :: string
  st_ndc :: string

section \<open>Canonical responses\<close>

text \<open>\<^verbatim>\<open>new Date(s)\<close>: the date made from the timestamp string of the gateway.\<close>

datatype Date = Date string

text \<open>The \<^verbatim>\<open>metadata\<close> of a response: the raw gateway response and its result.\<close>

datatype gatewayResponse =
    PaymentJson PeachPaymentResponse
  | StatusJson PeachStatusResponse
  | RefundJson PeachRefundResponse

record ResponseMetadata =
  gatewayResponse :: gatewayResponse
  resultCode :: string
  resultDescription :: string

record PaymentResponse =
  res_id :: string
  status :: PaymentStatus
  res_amount :: Amount
  res_paymentMethod :: string
  res_reference :: "string option"
  gatewayReference :: "string option"
  createdAt :: Date
  updatedAt :: "Date option"
  res_metadata :: "ResponseMetadata option"
  redirectUrl :: "string option"
  failureReason :: "string option"

record RefundResponse =
  rr_id :: string
  rr_paymentId :: string
  rr_status :: PaymentStatus
  rr_amount :: Amount
  rr_reason :: "string option"
  rr_reference :: "string option"
  rr_gatewayReference :: "string option"
  rr_createdAt :: Date
  rr_metadata :: "ResponseMetadata option"

section \<open>Peach adapter (gateways/base.ts, gateways/peach/client.ts)\<close>

record PeachPaymentsGateway =
  name :: string
  supportedMethods :: "string list"
  config :: PaymentGatewayConfig
  peachConfig :: PeachPaymentsConfig
  httpClient :: HttpClient

definition supportsPaymentMethod :: "PeachPaymentsGateway \<Rightarrow> string \<Rightarrow> bool" where
  "supportsPaymentMethod g method = array_includes (supportedMethods g) method"

text \<open>\<^verbatim>\<open>toLowerCase\<close> and \<^verbatim>\<open>includes\<close> on strings of ASCII characters.\<close>

definition toLowerCase :: "string \<Rightarrow> string" where
  "toLowerCase s =
     map (\<lambda>c. case map_of (zip ''ABCDEFGHIJKLMNOPQRSTUVWXYZ'' ''abcdefghijklmnopqrstuvwxyz'') c of
                None \<Rightarrow> c
              | Some l \<Rightarrow> l) s"

fun string_includes :: "string \<Rightarrow> string \<Rightarrow> bool" where
  "string_includes [] sub = (sub = [])"
| "string_includes (c # cs) sub = (take (length sub) (c # cs) = sub \<or> string_includes cs sub)"

definition generateReference :: "platform \<Rightarrow> PeachPaymentsGateway \<Rightarrow> string" where
  "generateReference P g =
     toLowerCase (name g) @ ''-'' @ decimal (Date_now P) @ ''-'' @ Math_random36 P"

definition normalizeConfig :: "PeachPaymentsConfig \<Rightarrow> world \<Rightarrow> PeachPaymentsConfig \<times> world" where
  "normalizeConfig c w =
     (if truthy (apiUrl c) \<and> sandbox c \<noteq> None \<and> \<not> truthy (environment c)
      then (c\<lparr>environment := Some (if sandbox c = Some True then SANDBOX else PRODUCTION)\<rparr>,
            w\<lparr>console := console w @
               [''[PayLens] Using legacy configuration format. Please migrate to environment-based configuration.'']\<rparr>)
      else (c, w))"

text \<open>
  The paths at which \<^verbatim>\<open>PeachPaymentsConfigSchema\<close> rejects a configuration;
  \<^verbatim>\<open>safeParse\<close> succeeds when there is none.
\<close>

definition optional_positive :: "string \<Rightarrow> int option \<Rightarrow> string list" where
  "optional_positive path v = (case v of None \<Rightarrow> [] | Some n \<Rightarrow> if 0 < n then [] else [path])"

definition optional_url :: "platform \<Rightarrow> string \<Rightarrow> string option \<Rightarrow> string list" where
  "optional_url P path v = (case v of None \<Rightarrow> [] | Some u \<Rightarrow> if z_url P u then [] else [path])"

definition min1 :: "string \<Rightarrow> string \<Rightarrow> string list" where
  "min1 path s = (if 1 \<le> length s then [] else [path])"

definition PeachPaymentsConfigSchema :: "platform \<Rightarrow> PeachPaymentsConfig \<Rightarrow> string list" where
  "PeachPaymentsConfigSchema P c =
     min1 ''entityId'' (entityId c) @
     min1 ''username'' (username c) @
     min1 ''password'' (password c) @
     (if environment c = Some SANDBOX \<or> environment c = Some PRODUCTION then []
      else [''environment'']) @
     optional_positive ''timeout'' (peach_timeout c) @
     optional_positive ''retries'' (peach_retries c) @
     optional_url P ''apiUrl'' (apiUrl c)"

definition getApiUrlForConfig :: "PeachPaymentsConfig \<Rightarrow> string option" where
  "getApiUrlForConfig c =
     (if truthy (apiUrl c) then apiUrl c
      else case environment c of None \<Rightarrow> None | Some e \<Rightarrow> map_of PEACH_API_URLS e)"

definition createAuthHeader :: "platform \<Rightarrow> PeachPaymentsConfig \<Rightarrow> string" where
  "createAuthHeader P c = base64 P (username c @ '':'' @ password c)"

definition PeachPaymentsGateway_new ::
  "platform \<Rightarrow> PeachPaymentsConfig \<Rightarrow> world \<Rightarrow> (error + PeachPaymentsGateway) \<times> world" where
  "PeachPaymentsGateway_new P c w =
     (case normalizeConfig c w of
        (normalizedConfig, w1) \<Rightarrow>
          (let issues = PeachPaymentsConfigSchema P normalizedConfig
           in if issues \<noteq> []
              then (Inl (ValidationError
                           (''Invalid Peach Payments configuration: '' @ z_message P issues) None),
                    w1)
              else
                (let url = getApiUrlForConfig normalizedConfig;
                     isSandbox = (environment normalizedConfig = Some SANDBOX);
                     baseConfig = \<lparr> base_apiUrl = url, base_sandbox = isSandbox,
                                    base_timeout = peach_timeout normalizedConfig,
                                    base_retries = peach_retries normalizedConfig \<rparr>
                 in case HttpClient_new
                           \<lparr> baseURL = url,
                             cfg_timeout = peach_timeout normalizedConfig,
                             cfg_retries = peach_retries normalizedConfig,
                             cfg_headers =
                               [(''Authorization'',
                                 ''Basic '' @ createAuthHeader P normalizedConfig)] \<rparr>
                           w1 of
                      (http, w2) \<Rightarrow>
                        (Inr \<lparr> name = ''PeachPayments'',
                               supportedMethods = [CARD, EFT, MOBILE_WALLET],
                               config = baseConfig,
                               peachConfig = normalizedConfig,
                               httpClient = http \<rparr>,
                         w2))))"

definition validateConfig :: "platform \<Rightarrow> PeachPaymentsGateway \<Rightarrow> bool" where
  "validateConfig P g = (PeachPaymentsConfigSchema P (peachConfig g) = [])"

definition getPaymentType :: "string \<Rightarrow> string" where
  "getPaymentType method =
     (if method = CARD then ''DB''
      else if method = EFT then ''DD''
      else if method = MOBILE_WALLET then ''DB''
      else ''DB'')"

definition mapPaymentBrandToMethod :: "string option \<Rightarrow> string" where
  "mapPaymentBrandToMethod brand =
     (if \<not> truthy brand then CARD
      else
        (let brandLower = toLowerCase (the brand)
         in if string_includes brandLower ''visa'' \<or> string_includes brandLower ''mastercard'' \<or>
               string_includes brandLower ''amex'' \<or> string_includes brandLower ''diners''
            then CARD
            else if string_includes brandLower ''eft'' \<or> string_includes brandLower ''bank''
            then EFT
            else if string_includes brandLower ''paypal'' \<or> string_includes brandLower ''wallet''
            then MOBILE_WALLET
            else CARD))"

text \<open>
  The customer of a request is a required field of its type, so the test
  \<^verbatim>\<open>if (request.customer)\<close> succeeds and the wire request always has a customer; the
  other optional parts are copied when they are present (for a string: not empty).
\<close>

definition mapToPaymentRequest ::
  "platform \<Rightarrow> PeachPaymentsGateway \<Rightarrow> PaymentRequest \<Rightarrow> PeachPaymentRequest" where
  "mapToPaymentRequest P g request =
     \<lparr> req_entityId = entityId (peachConfig g),
       req_amount = toFixed2 (Number_toString P) (value (amount request)),
       req_currency = currency (amount request),
       req_paymentType = getPaymentType (paymentMethod request),
       req_testMode = (if sandbox (peachConfig g) = Some True then Some ''EXTERNAL'' else None),
       merchantTransactionId =
         Some (if truthy (reference request) then the (reference request)
               else generateReference P g),
       req_customer =
         Some \<lparr> merchantCustomerId = customer_id (customer request),
                givenName = firstName (customer request),
                surname = lastName (customer request),
                wire_email = Some (email (customer request)),
                wire_phone = phone (customer request) \<rparr>,
       billing =
         (case billingAddress request of
            None \<Rightarrow> None
          | Some b \<Rightarrow>
              Some \<lparr> street1 = line1 b, wire_city = city b, wire_state = state b,
                     postcode = postalCode b, wire_country = country b \<rparr>),
       card =
         (case cardDetails request of
            None \<Rightarrow> None
          | Some d \<Rightarrow>
              Some \<lparr> wire_number = card_number d,
                     holder = (if truthy (holderName d) then the (holderName d) else ''''),
                     wire_expiryMonth = expiryMonth d,
                     wire_expiryYear = expiryYear d,
                     wire_cvv = cvv d \<rparr>),
       shopperResultUrl = (if truthy (returnUrl request) then returnUrl request else None),
       notificationUrl = (if truthy (webhookUrl request) then webhookUrl request else None) \<rparr>"

definition mapToPaymentResponse :: "PeachPaymentResponse \<Rightarrow> PaymentRequest \<Rightarrow> PaymentResponse" where
  "mapToPaymentResponse peachResponse originalRequest =
     \<lparr> res_id = pay_id peachResponse,
       status = mapPaymentStatus (code (pay_result peachResponse)),
       res_amount = amount originalRequest,
       res_paymentMethod = paymentMethod originalRequest,
       res_reference = reference originalRequest,
       gatewayReference = Some (pay_id peachResponse),
       createdAt = Date (pay_timestamp peachResponse),
       updatedAt = None,
       res_metadata =
         Some \<lparr> gatewayResponse = PaymentJson peachResponse,
                resultCode = code (pay_result peachResponse),
                resultDescription = result_description (pay_result peachResponse) \<rparr>,
       redirectUrl = pay_redirectUrl peachResponse,
       failureReason =
         (if mapPaymentStatus (code (pay_result peachResponse)) = FAILED
          then Some (result_description (pay_result peachResponse))
          else None) \<rparr>"

definition mapStatusToPaymentResponse :: "platform \<Rightarrow> PeachStatusResponse \<Rightarrow> PaymentResponse" where
  "mapStatusToPaymentResponse P peachResponse =
     \<lparr> res_id = st_id peachResponse,
       status = mapPaymentStatus (code (st_result peachResponse)),
       res_amount = \<lparr> value = parseFloat P (st_amount peachResponse),
                      currency = st_currency peachResponse \<rparr>,
       res_paymentMethod = mapPaymentBrandToMethod (st_paymentBrand peachResponse),
       res_reference = None,
       gatewayReference = Some (st_id peachResponse),
       createdAt = Date (st_timestamp peachResponse),
       updatedAt = None,
       res_metadata =
         Some \<lparr> gatewayResponse = StatusJson peachResponse,
                resultCode = code (st_result peachResponse),
                resultDescription = result_description (st_result peachResponse) \<rparr>,
       redirectUrl = None,
       failureReason =
         (if mapPaymentStatus (code (st_result peachResponse)) = FAILED
          then Some (result_description (st_result peachResponse))
          else None) \<rparr>"

text \<open>
  \<^verbatim>\<open>request.amount?.value.toFixed(2) || '0.00'\<close> and \<^verbatim>\<open>request.amount?.currency || 'ZAR'\<close>:
  the default stands in when the amount is absent and also when the string is empty.
\<close>

definition mapToRefundRequest ::
  "platform \<Rightarrow> PeachPaymentsGateway \<Rightarrow> RefundRequest \<Rightarrow> PeachRefundRequest" where
  "mapToRefundRequest P g request =
     \<lparr> rfq_entityId = entityId (peachConfig g),
       rfq_amount =
         (let s = map_option (\<lambda>a. toFixed2 (Number_toString P) (value a)) (refund_amount request)
          in if truthy s then the s else ''0.00''),
       rfq_currency =
         (let s = map_option currency (refund_amount request)
          in if truthy s then the s else ''ZAR''),
       rfq_paymentType = ''RF'',
       rfq_testMode = (if sandbox (peachConfig g) = Some True then Some ''EXTERNAL'' else None) \<rparr>"

definition mapToRefundResponse ::
  "platform \<Rightarrow> PeachRefundResponse \<Rightarrow> RefundRequest \<Rightarrow> RefundResponse" where
  "mapToRefundResponse P peachResponse originalRequest =
     \<lparr> rr_id = rfd_id peachResponse,
       rr_paymentId = paymentId originalRequest,
       rr_status = mapPaymentStatus (code (rfd_result peachResponse)),
       rr_amount = \<lparr> value = parseFloat P (rfd_amount peachResponse),
                     currency = rfd_currency peachResponse \<rparr>,
       rr_reason = reason originalRequest,
       rr_reference = refund_reference originalRequest,
       rr_gatewayReference = Some (rfd_id peachResponse),
       rr_createdAt = Date (rfd_timestamp peachResponse),
       rr_metadata =
         Some \<lparr> gatewayResponse = RefundJson peachResponse,
                resultCode = code (rfd_result peachResponse),
                resultDescription = result_description (rfd_result peachResponse) \<rparr> \<rparr>"

definition mapStatusToRefundResponse :: "platform \<Rightarrow> PeachStatusResponse \<Rightarrow> RefundResponse" where
  "mapStatusToRefundResponse P peachResponse =
     \<lparr> rr_id = st_id peachResponse,
       rr_paymentId = '''',
       rr_status = mapPaymentStatus (code (st_result peachResponse)),
       rr_amount = \<lparr> value = parseFloat P (st_amount peachResponse),
                     currency = st_currency peachResponse \<rparr>,
       rr_reason = None,
       rr_reference = None,
       rr_gatewayReference = Some (st_id peachResponse),
       rr_createdAt = Date (st_timestamp peachResponse),
       rr_metadata =
         Some \<lparr> gatewayResponse = StatusJson peachResponse,
                resultCode = code (st_result peachResponse),
                resultDescription = result_description (st_result peachResponse) \<rparr> \<rparr>"

text \<open>
  The four operations of the adapter. Each runs against a remote side and returns the
  canonical response or the error it throws; an error of the transport is wrapped, a
  \<open>ValidationError\<close> raised while a payment is processed is thrown as it is. Every
  error of the model is an instance of \<^verbatim>\<open>Error\<close>, so the wrapped message is always
  \<^verbatim>\<open>error.message\<close> and the cause is always the error.
\<close>

definition processPayment ::
  "platform \<Rightarrow> (PeachPaymentRequest, PeachPaymentResponse) remote \<Rightarrow> PeachPaymentsGateway \<Rightarrow>
   PaymentRequest \<Rightarrow> PaymentResponse io" where
  "processPayment P remote g request w =
     (let peachRequest = mapToPaymentRequest P g request
      in case HttpClient_post P remote (httpClient g) ''/payments'' (Some peachRequest) w of
           (Inr response, w1) \<Rightarrow> (Inr (mapToPaymentResponse response request), w1)
         | (Inl err, w1) \<Rightarrow>
             (case err of
                ValidationError _ _ \<Rightarrow> (Inl err, w1)
              | _ \<Rightarrow>
                  (Inl (PaymentError (''Payment processing failed: '' @ message err)
                          None None (Some err)), w1)))"

definition getPaymentStatus ::
  "platform \<Rightarrow> (unit, PeachStatusResponse) remote \<Rightarrow> PeachPaymentsGateway \<Rightarrow>
   string \<Rightarrow> PaymentResponse io" where
  "getPaymentStatus P remote g pid w =
     (case HttpClient_get P remote (httpClient g)
             (''/payments/'' @ pid @ ''?entityId='' @ entityId (peachConfig g)) w of
        (Inr response, w1) \<Rightarrow> (Inr (mapStatusToPaymentResponse P response), w1)
      | (Inl err, w1) \<Rightarrow>
          (Inl (PaymentError (''Failed to get payment status: '' @ message err)
                  (Some pid) None (Some err)), w1))"

definition processRefund ::
  "platform \<Rightarrow> (PeachRefundRequest, PeachRefundResponse) remote \<Rightarrow> PeachPaymentsGateway \<Rightarrow>
   RefundRequest \<Rightarrow> RefundResponse io" where
  "processRefund P remote g request w =
     (let peachRequest = mapToRefundRequest P g request
      in case HttpClient_post P remote (httpClient g) (''/payments/'' @ paymentId request)
                (Some peachRequest) w of
           (Inr response, w1) \<Rightarrow> (Inr (mapToRefundResponse P response request), w1)
         | (Inl err, w1) \<Rightarrow>
             (Inl (RefundError (''Refund processing failed: '' @ message err)
                     (Some (paymentId request)) None None (Some err)), w1))"

definition getRefundStatus ::
  "platform \<Rightarrow> (unit, PeachStatusResponse) remote \<Rightarrow> PeachPaymentsGateway \<Rightarrow>
   string \<Rightarrow> RefundResponse io" where
  "getRefundStatus P remote g refundId w =
     (case HttpClient_get P remote (httpClient g)
             (''/payments/'' @ refundId @ ''?entityId='' @ entityId (peachConfig g)) w of
        (Inr response, w1) \<Rightarrow> (Inr (mapStatusToRefundResponse P response), w1)
      | (Inl err, w1) \<Rightarrow>
          (Inl (RefundError (''Failed to get refund status: '' @ message err)
                  None (Some refundId) None (Some err)), w1))"

section \<open>Request schemas (types/common.ts)\<close>

definition is_digit :: "char \<Rightarrow> bool" where
  "is_digit c = (c \<in> set ''0123456789'')"

text \<open>The regular expression \<^verbatim>\<open>^\d{lo,hi}$\<close>.\<close>

definition digits_between :: "nat \<Rightarrow> nat \<Rightarrow> string \<Rightarrow> bool" where
  "digits_between lo hi s = (lo \<le> length s \<and> length s \<le> hi \<and> list_all is_digit s)"

definition check :: "bool \<Rightarrow> string \<Rightarrow> string list" where
  "check ok path = (if ok then [] else [path])"

text \<open>
  \<^verbatim>\<open>z.number().positive().multipleOf(0.01)\<close>: \<^verbatim>\<open>z.number()\<close> rejects \<^verbatim>\<open>NaN\<close>; how the
  library tests the multiple on doubles is its own business.
\<close>

definition positive :: "number \<Rightarrow> bool" where
  "positive x = (case x of Finite r \<Rightarrow> 0 < r | PosInfinity \<Rightarrow> True | _ \<Rightarrow> False)"

definition AmountSchema :: "platform \<Rightarrow> string \<Rightarrow> number \<Rightarrow> string list" where
  "AmountSchema P path x =
     (if x = NaN then [path]
      else check (positive x) path @ check (z_multipleOf_cent P x) path)"

definition AmountObjectSchema :: "platform \<Rightarrow> string \<Rightarrow> Amount \<Rightarrow> string list" where
  "AmountObjectSchema P path a =
     AmountSchema P (path @ ''.value'') (value a) @
     check (currency a \<in> set Currency_values) (path @ ''.currency'')"

definition CustomerSchema :: "platform \<Rightarrow> Customer \<Rightarrow> string list" where
  "CustomerSchema P c = check (z_email P (email c)) ''customer.email''"

definition BillingAddressSchema :: "BillingAddress \<Rightarrow> string list" where
  "BillingAddressSchema b =
     check (1 \<le> length (line1 b)) ''billingAddress.line1'' @
     check (1 \<le> length (city b)) ''billingAddress.city'' @
     check (1 \<le> length (postalCode b)) ''billingAddress.postalCode'' @
     check (length (country b) = 2) ''billingAddress.country''"

definition CardDetailsSchema :: "CardDetails \<Rightarrow> string list" where
  "CardDetailsSchema d =
     check (digits_between 13 19 (card_number d)) ''cardDetails.number'' @
     check (expiryMonth d \<in> set [''01'', ''02'', ''03'', ''04'', ''05'', ''06'', ''07'', ''08'', ''09'',
                                    ''10'', ''11'', ''12'']) ''cardDetails.expiryMonth'' @
     check (digits_between 2 2 (expiryYear d)) ''cardDetails.expiryYear'' @
     check (digits_between 3 4 (cvv d)) ''cardDetails.cvv''"

definition PaymentRequestSchema :: "platform \<Rightarrow> PaymentRequest \<Rightarrow> string list" where
  "PaymentRequestSchema P r =
     AmountObjectSchema P ''amount'' (amount r) @
     CustomerSchema P (customer r) @
     check (paymentMethod r \<in> set PaymentMethod_values) ''paymentMethod'' @
     (case billingAddress r of None \<Rightarrow> [] | Some b \<Rightarrow> BillingAddressSchema b) @
     (case cardDetails r of None \<Rightarrow> [] | Some d \<Rightarrow> CardDetailsSchema d) @
     optional_url P ''returnUrl'' (returnUrl r) @
     optional_url P ''webhookUrl'' (webhookUrl r)"


section \<open>Orchestrator (client.ts)\<close>

record PayLensConfig =
  peachPayments :: "PeachPaymentsConfig option"

text \<open>
  The registry is a \<^verbatim>\<open>Map\<close>: an association list in insertion order, where setting a
  key that is present replaces its value in place.
\<close>

record PayLens =
  gateways :: "(string \<times> PeachPaymentsGateway) list"
  defaultGateway :: "string option"

definition initializeGateways ::
  "platform \<Rightarrow> PayLensConfig \<Rightarrow> PayLens \<Rightarrow> world \<Rightarrow> (error + PayLens) \<times> world" where
  "initializeGateways P cfg this w =
     (case (case peachPayments cfg of
              None \<Rightarrow> (Inr this, w)
            | Some pc \<Rightarrow>
                (case PeachPaymentsGateway_new P pc w of
                   (Inr peachGateway, w1) \<Rightarrow>
                     (let this1 = this\<lparr>gateways := AList.update ''peach'' peachGateway (gateways this)\<rparr>
                      in (Inr (if \<not> truthy (defaultGateway this1)
                               then this1\<lparr>defaultGateway := Some ''peach''\<rparr> else this1), w1))
                 | (Inl err, w1) \<Rightarrow>
                     (Inl (ConfigurationError
                             (''Failed to initialize Peach Payments gateway: '' @ message err)
                             (Some ''peachPayments'') (Some err)), w1))) of
        (Inl err, w1) \<Rightarrow> (Inl err, w1)
      | (Inr this1, w1) \<Rightarrow>
          if length (gateways this1) = 0
          then (Inl (ConfigurationError
                       ''No payment gateways configured. Please provide at least one gateway configuration.''
                       None None), w1)
          else (Inr this1, w1))"

definition PayLens_new :: "platform \<Rightarrow> PayLensConfig \<Rightarrow> world \<Rightarrow> (error + PayLens) \<times> world" where
  "PayLens_new P cfg w = initializeGateways P cfg \<lparr> gateways = [], defaultGateway = None \<rparr> w"

definition getAvailableGateways :: "PayLens \<Rightarrow> string list" where
  "getAvailableGateways this = map fst (gateways this)"

definition isGatewayAvailable :: "PayLens \<Rightarrow> string \<Rightarrow> bool" where
  "isGatewayAvailable this gatewayName = (map_of (gateways this) gatewayName \<noteq> None)"

definition setDefaultGateway :: "PayLens \<Rightarrow> string \<Rightarrow> error + PayLens" where
  "setDefaultGateway this gatewayName =
     (if map_of (gateways this) gatewayName = None
      then Inl (ConfigurationError (''Gateway '' @ gatewayName @ '' not found'') None None)
      else Inr (this\<lparr>defaultGateway := Some gatewayName\<rparr>))"

text \<open>\<^verbatim>\<open>Array.prototype.join\<close>.\<close>

fun join :: "string \<Rightarrow> string list \<Rightarrow> string" where
  "join sep [] = ''''"
| "join sep [x] = x"
| "join sep (x # y # ys) = x @ sep @ join sep (y # ys)"

definition getGateway :: "PayLens \<Rightarrow> string option \<Rightarrow> error + PeachPaymentsGateway" where
  "getGateway this gatewayName =
     (let targetGateway = (if truthy gatewayName then gatewayName else defaultGateway this)
      in if \<not> truthy targetGateway
         then Inl (ConfigurationError ''No gateway specified and no default gateway set'' None None)
         else
           (case map_of (gateways this) (the targetGateway) of
              None \<Rightarrow>
                Inl (ConfigurationError
                       (''Gateway '' @ the targetGateway @ '' not found. Available gateways: '' @
                          join '', '' (getAvailableGateways this))
                       None None)
            | Some gateway \<Rightarrow> Inr gateway))"

definition PayLens_processPayment ::
  "platform \<Rightarrow> (PeachPaymentRequest, PeachPaymentResponse) remote \<Rightarrow> PayLens \<Rightarrow>
   PaymentRequest \<Rightarrow> string option \<Rightarrow> PaymentResponse io" where
  "PayLens_processPayment P remote this request gatewayName w =
     (let issues = PaymentRequestSchema P request
      in if issues \<noteq> []
         then (Inl (ValidationError (''Invalid payment request: '' @ z_message P issues) None), w)
         else
           (case getGateway this gatewayName of
              Inl err \<Rightarrow> (Inl err, w)
            | Inr gateway \<Rightarrow>
                if \<not> supportsPaymentMethod gateway (paymentMethod request)
                then (Inl (ValidationError
                             (''Gateway '' @ name gateway @ '' does not support payment method '' @
                                paymentMethod request) None), w)
                else processPayment P remote gateway request w))"

section \<open>Test fixtures\<close>

text \<open>A platform, a world and a remote side to run the model on.\<close>

definition test_platform :: platform where
  "test_platform =
     \<lparr> z_url = (\<lambda>s. take 8 s = ''https://''),
       z_email = (\<lambda>s. CHR ''@'' \<in> set s),
       z_multipleOf_cent = (\<lambda>x. case x of Finite r \<Rightarrow> r * 100 = of_int \<lfloor>r * 100\<rfloor> | _ \<Rightarrow> False),
       z_message = (\<lambda>paths. concat (map (\<lambda>p. ''['' @ p @ '']'') paths)),
       base64 = (\<lambda>s. s),
       Date_now = 1700000000000,
       Math_random36 = ''k3x9qa'',
       parseFloat = (\<lambda>s. if s = ''100.00'' then Finite 100 else NaN),
       Number_toString = (\<lambda>r. ''1e+21''),
       NODE_ENV = None \<rparr>"

definition fresh_world :: world where
  "fresh_world = \<lparr> requests = 0, sleeps = [], transports = [], console = [] \<rparr>"

text \<open>A server that is down for the first two requests and answers the third.\<close>

definition flaky_remote :: "('b, string) remote" where
  "flaky_remote k inst m url body =
     (if k < 2 then AxiosError (Some (500, None)) True ''Request failed with status code 500''
      else AxiosResponse ''ok'')"

definition missing_remote :: "('b, string) remote" where
  "missing_remote k inst m url body =
     AxiosError (Some (404, Some ''not found'')) True ''Request failed with status code 404''"

definition test_client :: HttpClient where
  "test_client =
     fst (HttpClient_new \<lparr> baseURL = Some ''https://testapi-v2.peachpayments.com'',
                           cfg_timeout = None, cfg_retries = None, cfg_headers = [] \<rparr>
            fresh_world)"

definition test_config :: PeachPaymentsConfig where
  "test_config =
     \<lparr> entityId = ''test-entity-123'', username = ''test-user'', password = ''test-password'',
       environment = Some SANDBOX, peach_timeout = None, peach_retries = None,
       apiUrl = None, sandbox = None \<rparr>"

definition legacy_config :: PeachPaymentsConfig where
  "legacy_config =
     \<lparr> entityId = ''test-entity-123'', username = ''test-user'', password = ''test-password'',
       environment = None, peach_timeout = None, peach_retries = None,
       apiUrl = Some ''https://legacy.example.com'', sandbox = Some False \<rparr>"

definition test_gateway :: PeachPaymentsGateway where
  "test_gateway =
     \<lparr> name = ''PeachPayments'',
       supportedMethods = [CARD, EFT, MOBILE_WALLET],
       config = \<lparr> base_apiUrl = Some ''https://testapi-v2.peachpayments.com'', base_sandbox = True,
                  base_timeout = None, base_retries = None \<rparr>,
       peachConfig = test_config,
       httpClient =
         \<lparr> client = \<lparr> ax_baseURL = Some ''https://testapi-v2.peachpayments.com'',
                        ax_timeout = 30000,
                        ax_headers = [(''Content-Type'', ''application/json''),
                                      (''User-Agent'', ''@paylens/sdk''),
                                      (''Authorization'', ''Basic test-user:test-password'')] \<rparr>,
           retries = 3 \<rparr> \<rparr>"

definition test_request :: PaymentRequest where
  "test_request =
     \<lparr> amount = \<lparr> value = Finite 100, currency = ''ZAR'' \<rparr>,
       customer = \<lparr> customer_id = None, email = ''test@example.com'', firstName = None,
                    lastName = None, phone = None \<rparr>,
       paymentMethod = CARD,
       reference = Some ''order-1'',
       description = None,
       metadata = None,
       billingAddress = None,
       cardDetails = Some \<lparr> card_number = ''4111111111111111'', expiryMonth = ''12'',
                             expiryYear = ''25'', cvv = ''123'', holderName = None \<rparr>,
       returnUrl = None,
       webhookUrl = None \<rparr>"

definition test_payment_response :: "string \<Rightarrow> string \<Rightarrow> PeachPaymentResponse" where
  "test_payment_response c d =
     \<lparr> pay_id = ''8ac7a4a1'', pay_paymentType = ''DB'', pay_paymentBrand = Some ''VISA'',
       pay_amount = ''100.00'', pay_currency = ''ZAR'', pay_descriptor = None,
       pay_result = \<lparr> code = c, result_description = d \<rparr>,
       pay_resultDetails = None, pay_card = None, pay_risk_score = None,
       pay_buildNumber = ''b1'', pay_timestamp = ''2024-01-01 10:00:00+0000'',
       pay_ndc = ''ndc1'', pay_redirectUrl = None \<rparr>"

definition test_status_response :: "string \<Rightarrow> string \<Rightarrow> PeachStatusResponse" where
  "test_status_response c d =
     \<lparr> st_id = ''8ac7a4a1'', st_paymentType = ''RF'', st_paymentBrand = Some ''VISA'',
       st_amount = ''100.00'', st_currency = ''ZAR'', st_descriptor = None,
       st_result = \<lparr> code = c, result_description = d \<rparr>,
       st_resultDetails = None,
       st_buildNumber = ''b1'', st_timestamp = ''2024-01-01 10:00:00+0000'', st_ndc = ''ndc1'' \<rparr>"

text \<open>A gateway that answers every request with the given data.\<close>

definition answering :: "'a \<Rightarrow> ('b, 'a) remote" where
  "answering d k inst m url body = AxiosResponse d"


section \<open>Status classification\<close>

lemma buckets_disjoint:
  "set SUCCESS_CODES \<inter> set PENDING_CODES = {}"
  "set SUCCESS_CODES \<inter> set REJECTED_CODES = {}"
  "set SUCCESS_CODES \<inter> set ERROR_CODES = {}"
  "set PENDING_CODES \<inter> set REJECTED_CODES = {}"
  "set PENDING_CODES \<inter> set ERROR_CODES = {}"
  "set REJECTED_CODES \<inter> set ERROR_CODES = {}"
  by (simp_all add: SUCCESS_CODES_def PENDING_CODES_def REJECTED_CODES_def ERROR_CODES_def)

lemma mapPaymentStatus_cases:
  "c \<in> set SUCCESS_CODES \<Longrightarrow> mapPaymentStatus c = COMPLETED"
  "c \<in> set PENDING_CODES \<Longrightarrow> mapPaymentStatus c = PROCESSING"
  "c \<in> set REJECTED_CODES \<Longrightarrow> mapPaymentStatus c = FAILED"
  "c \<in> set ERROR_CODES \<Longrightarrow> mapPaymentStatus c = FAILED"
  "c \<notin> set SUCCESS_CODES \<Longrightarrow> c \<notin> set PENDING_CODES \<Longrightarrow> c \<notin> set REJECTED_CODES \<Longrightarrow>
   c \<notin> set ERROR_CODES \<Longrightarrow> mapPaymentStatus c = PENDING"
  using buckets_disjoint unfolding mapPaymentStatus_def array_includes_def
  by (auto simp: disjoint_iff)

text \<open>
  C1. Every code of the success bucket is classified \<open>COMPLETED\<close>, every code of the
  pending bucket \<open>PROCESSING\<close>, every code of the rejected bucket and of the error bucket
  \<open>FAILED\<close>, and every code in none of the four buckets \<open>PENDING\<close>; the four buckets are
  pairwise disjoint.
\<close>

theorem mapPaymentStatus_buckets:
  "(gatewayStatus \<in> set SUCCESS_CODES \<longrightarrow> mapPaymentStatus gatewayStatus = COMPLETED) \<and>
   (gatewayStatus \<in> set PENDING_CODES \<longrightarrow> mapPaymentStatus gatewayStatus = PROCESSING) \<and>
   (gatewayStatus \<in> set REJECTED_CODES \<longrightarrow> mapPaymentStatus gatewayStatus = FAILED) \<and>
   (gatewayStatus \<in> set ERROR_CODES \<longrightarrow> mapPaymentStatus gatewayStatus = FAILED) \<and>
   (gatewayStatus \<notin> set SUCCESS_CODES \<union> set PENDING_CODES \<union> set REJECTED_CODES \<union> set ERROR_CODES
      \<longrightarrow> mapPaymentStatus gatewayStatus = PENDING) \<and>
   set SUCCESS_CODES \<inter> set PENDING_CODES = {} \<and>
   set SUCCESS_CODES \<inter> set REJECTED_CODES = {} \<and>
   set SUCCESS_CODES \<inter> set ERROR_CODES = {} \<and>
   set PENDING_CODES \<inter> set REJECTED_CODES = {} \<and>
   set PENDING_CODES \<inter> set ERROR_CODES = {} \<and>
   set REJECTED_CODES \<inter> set ERROR_CODES = {}"
  by (simp add: mapPaymentStatus_cases buckets_disjoint)

theorem mapPaymentStatus_buckets_witness:
  "''000.100.112'' \<in> set SUCCESS_CODES \<and> mapPaymentStatus ''000.100.112'' = COMPLETED \<and>
   ''900.100.300'' \<in> set PENDING_CODES \<and> mapPaymentStatus ''900.100.300'' = PROCESSING \<and>
   ''000.400.010'' \<in> set REJECTED_CODES \<and> mapPaymentStatus ''000.400.010'' = FAILED \<and>
   ''900.400.500'' \<in> set ERROR_CODES \<and> mapPaymentStatus ''900.400.500'' = FAILED \<and>
   ''999.999.999'' \<notin> set SUCCESS_CODES \<union> set PENDING_CODES \<union> set REJECTED_CODES \<union> set ERROR_CODES \<and>
   mapPaymentStatus ''999.999.999'' = PENDING"
proof -
  have s: "''000.100.112'' \<in> set SUCCESS_CODES" by (simp add: SUCCESS_CODES_def)
  have p: "''900.100.300'' \<in> set PENDING_CODES" by (simp add: PENDING_CODES_def)
  have r: "''000.400.010'' \<in> set REJECTED_CODES" by (simp add: REJECTED_CODES_def)
  have e: "''900.400.500'' \<in> set ERROR_CODES" by (simp add: ERROR_CODES_def)
  have u: "''999.999.999'' \<notin> set SUCCESS_CODES \<union> set PENDING_CODES \<union> set REJECTED_CODES \<union> set ERROR_CODES"
    by (simp add: SUCCESS_CODES_def PENDING_CODES_def REJECTED_CODES_def ERROR_CODES_def)
  have 1: "mapPaymentStatus ''000.100.112'' = COMPLETED"
    using s mapPaymentStatus_buckets [of "''000.100.112''"] by simp
  have 2: "mapPaymentStatus ''900.100.300'' = PROCESSING"
    using p mapPaymentStatus_buckets [of "''900.100.300''"] by simp
  have 3: "mapPaymentStatus ''000.400.010'' = FAILED"
    using r mapPaymentStatus_buckets [of "''000.400.010''"] by simp
  have 4: "mapPaymentStatus ''900.400.500'' = FAILED"
    using e mapPaymentStatus_buckets [of "''900.400.500''"] by simp
  have 5: "mapPaymentStatus ''999.999.999'' = PENDING"
    using u mapPaymentStatus_buckets [of "''999.999.999''"] by simp
  show ?thesis using s p r e u 1 2 3 4 5 by simp
qed

section \<open>Transport: retry and backoff\<close>

lemma requestInterceptor_fields:
  "requests (requestInterceptor P m url w) = requests w"
  "sleeps (requestInterceptor P m url w) = sleeps w"
  "transports (requestInterceptor P m url w) = transports w"
  by (simp_all add: requestInterceptor_def)

lemma axios_request_world:
  "requests (snd (axios_request P remote inst m url body w)) = Suc (requests w)"
  "sleeps (snd (axios_request P remote inst m url body w)) = sleeps w"
  "transports (snd (axios_request P remote inst m url body w)) = transports w"
  by (simp_all add: axios_request_def Let_def requestInterceptor_fields)

lemma axios_request_result:
  "fst (axios_request P remote inst m url body w) =
     responseInterceptor (remote (requests w) inst m url body)"
  by (simp add: axios_request_def Let_def requestInterceptor_fields)

lemma responseInterceptor_cases:
  "responseInterceptor (AxiosResponse d) = Inr d"
  "\<exists>msg'. responseInterceptor (AxiosError (Some (s, dm)) rq msg) = Inl (NetworkError msg' (Some s))"
  "\<exists>msg'. responseInterceptor (AxiosError None rq msg) = Inl (NetworkError msg' None)"
  by (simp_all add: responseInterceptor_def)

lemma executeWithRetry_success:
  "operation w = (Inr d, w1) \<Longrightarrow> executeWithRetry budget operation n w = (Inr d, w1)"
  by (subst executeWithRetry.simps) simp

lemma executeWithRetry_failure:
  "operation w = (Inl err, w1) \<Longrightarrow>
   executeWithRetry budget operation n w =
     (if int n < budget \<and> shouldRetry err
      then executeWithRetry budget operation (n + 1) (sleep (calculateRetryDelay n) w1)
      else (Inl err, w1))"
  by (subst executeWithRetry.simps) simp

lemma scenario_500_500_ok:
  assumes b: "3 \<le> budget"
    and r0: "remote (requests w) inst m url body = AxiosError (Some (500, dm0)) rq0 msg0"
    and r1: "remote (requests w + 1) inst m url body = AxiosError (Some (500, dm1)) rq1 msg1"
    and r2: "remote (requests w + 2) inst m url body = AxiosResponse d"
  shows "fst (executeWithRetry budget (axios_request P remote inst m url body) 1 w) = Inr d"
    and "sleeps (snd (executeWithRetry budget (axios_request P remote inst m url body) 1 w)) = sleeps w @ [1000, 2000]"
    and "requests (snd (executeWithRetry budget (axios_request P remote inst m url body) 1 w)) = requests w + 3"
proof -
  let ?op = "axios_request P remote inst m url body"
  obtain e0 w1 where o0: "?op w = (Inl e0, w1)" and s0: "shouldRetry e0"
    and w1: "requests w1 = requests w + 1" "sleeps w1 = sleeps w"
    using axios_request_result[of P remote inst m url body w] axios_request_world[of P remote inst m url body w] r0
    by (cases "?op w") (auto simp: responseInterceptor_def shouldRetry_def)
  let ?w1 = "sleep (calculateRetryDelay 1) w1"
  have w1': "requests ?w1 = requests w + 1" "sleeps ?w1 = sleeps w @ [1000]"
    using w1 by (simp_all add: sleep_def calculateRetryDelay_def)
  obtain e1 w2 where o1: "?op ?w1 = (Inl e1, w2)" and s1: "shouldRetry e1"
    and w2: "requests w2 = requests w + 2" "sleeps w2 = sleeps w @ [1000]"
    using axios_request_result[of P remote inst m url body ?w1] axios_request_world[of P remote inst m url body ?w1] r1 w1'
    by (cases "?op ?w1") (auto simp: responseInterceptor_def shouldRetry_def)
  let ?w2 = "sleep (calculateRetryDelay 2) w2"
  have w2': "requests ?w2 = requests w + 2" "sleeps ?w2 = sleeps w @ [1000, 2000]"
    using w2 by (simp_all add: sleep_def calculateRetryDelay_def)
  obtain w3 where o2: "?op ?w2 = (Inr d, w3)"
    and w3: "requests w3 = requests w + 3" "sleeps w3 = sleeps w @ [1000, 2000]"
    using axios_request_result[of P remote inst m url body ?w2] axios_request_world[of P remote inst m url body ?w2] r2 w2'
    by (cases "?op ?w2") (auto simp: responseInterceptor_def)
  have "executeWithRetry budget ?op 1 w = executeWithRetry budget ?op 2 ?w1"
    using executeWithRetry_failure[where operation="?op" and w=w and n=1 and budget=budget, OF o0] b s0 by (simp add: numeral_2_eq_2)
  also have "\<dots> = executeWithRetry budget ?op 3 ?w2"
    using executeWithRetry_failure[where operation="?op" and w="?w1" and n=2 and budget=budget, OF o1] b s1 by (simp add: numeral_2_eq_2 numeral_3_eq_3)
  also have "\<dots> = (Inr d, w3)"
    by (rule executeWithRetry_success[where operation="?op" and w="?w2", OF o2])
  finally have "executeWithRetry budget ?op 1 w = (Inr d, w3)" .
  then show "fst (executeWithRetry budget ?op 1 w) = Inr d"
    and "sleeps (snd (executeWithRetry budget ?op 1 w)) = sleeps w @ [1000, 2000]"
    and "requests (snd (executeWithRetry budget ?op 1 w)) = requests w + 3"
    using w3 by simp_all
qed

lemma scenario_404:
  assumes r0: "remote (requests w) inst m url body = AxiosError (Some (404, dm)) rq msg"
  shows "\<exists>msg'. fst (executeWithRetry budget (axios_request P remote inst m url body) 1 w) = Inl (NetworkError msg' (Some 404))"
    and "sleeps (snd (executeWithRetry budget (axios_request P remote inst m url body) 1 w)) = sleeps w"
    and "requests (snd (executeWithRetry budget (axios_request P remote inst m url body) 1 w)) = requests w + 1"
proof -
  let ?op = "axios_request P remote inst m url body"
  obtain msg' w1 where o0: "?op w = (Inl (NetworkError msg' (Some 404)), w1)"
    and w1: "requests w1 = requests w + 1" "sleeps w1 = sleeps w"
    using axios_request_result[of P remote inst m url body w] axios_request_world[of P remote inst m url body w] r0
    by (cases "?op w") (auto simp: responseInterceptor_def)
  have "executeWithRetry budget ?op 1 w = (Inl (NetworkError msg' (Some 404)), w1)"
    using executeWithRetry_failure[where operation="?op" and w=w and n=1 and budget=budget, OF o0] by (simp add: shouldRetry_def)
  then show "\<exists>msg'. fst (executeWithRetry budget ?op 1 w) = Inl (NetworkError msg' (Some 404))"
    and "sleeps (snd (executeWithRetry budget ?op 1 w)) = sleeps w"
    and "requests (snd (executeWithRetry budget ?op 1 w)) = requests w + 1"
    using w1 by simp_all
qed

text \<open>
  C2. Retry policy of the transport. A successful attempt is returned at once. A failed
  attempt \<open>n\<close> (a \<open>NetworkError\<close>, which is what the response interceptor makes of every
  failure of a request) is retried if and only if \<open>n\<close> is below the retry budget and the
  error has no status code or a status code of at least 500; the retry follows a sleep
  of \<open>min (1000 * 2^(n-1)) 10000\<close> milliseconds, and otherwise the error is thrown as it
  is. A status code is an HTTP status here, so not 0, which \<^verbatim>\<open>!error.statusCode\<close> takes
  for a missing one. With a budget of at least 3, two answers of status 500 and then a
  success give the success after three requests and sleeps of 1000 and 2000; an answer of
  status 404 is thrown after one request and no sleep, whatever the budget.
\<close>

theorem executeWithRetry_policy:
  "(operation w = (Inr d, w1) \<longrightarrow> executeWithRetry budget operation n w = (Inr d, w1)) \<and>
   (operation w = (Inl (NetworkError msg sc), w1) \<and> sc \<noteq> Some 0 \<and> 1 \<le> n \<longrightarrow>
      executeWithRetry budget operation n w =
        (if int n < budget \<and> (sc = None \<or> (\<exists>s. sc = Some s \<and> 500 \<le> s))
         then executeWithRetry budget operation (n + 1)
                (w1\<lparr>sleeps := sleeps w1 @ [min (1000 * 2 ^ (n - 1)) 10000]\<rparr>)
         else (Inl (NetworkError msg sc), w1))) \<and>
   ((\<exists>data. fst (axios_request P remote inst m url body w) = Inr data) \<or>
    (\<exists>msg' sc'. fst (axios_request P remote inst m url body w) = Inl (NetworkError msg' sc'))) \<and>
   (3 \<le> retries c \<and>
    remote (requests w) (client c) m url body = AxiosError (Some (500, dm0)) rq0 msg0 \<and>
    remote (requests w + 1) (client c) m url body = AxiosError (Some (500, dm1)) rq1 msg1 \<and>
    remote (requests w + 2) (client c) m url body = AxiosResponse d \<longrightarrow>
      fst (executeWithRetry (retries c) (axios_request P remote (client c) m url body) 1 w) = Inr d \<and>
      sleeps (snd (executeWithRetry (retries c) (axios_request P remote (client c) m url body) 1 w))
        = sleeps w @ [1000, 2000] \<and>
      requests (snd (executeWithRetry (retries c) (axios_request P remote (client c) m url body) 1 w))
        = requests w + 3) \<and>
   (remote (requests w) (client c) m url body = AxiosError (Some (404, dm)) rq msg4 \<longrightarrow>
      (\<exists>msg'. fst (executeWithRetry (retries c) (axios_request P remote (client c) m url body) 1 w)
                = Inl (NetworkError msg' (Some 404))) \<and>
      sleeps (snd (executeWithRetry (retries c) (axios_request P remote (client c) m url body) 1 w))
        = sleeps w \<and>
      requests (snd (executeWithRetry (retries c) (axios_request P remote (client c) m url body) 1 w))
        = requests w + 1)"
proof (intro conjI impI)
  assume "operation w = (Inr d, w1)"
  then show "executeWithRetry budget operation n w = (Inr d, w1)"
    by (rule executeWithRetry_success)
next
  assume a: "operation w = (Inl (NetworkError msg sc), w1) \<and> sc \<noteq> Some 0 \<and> 1 \<le> n"
  then have r: "shouldRetry (NetworkError msg sc) = (sc = None \<or> (\<exists>s. sc = Some s \<and> 500 \<le> s))"
    by (cases sc) (auto simp: shouldRetry_def)
  have e: "executeWithRetry budget operation n w =
        (if int n < budget \<and> shouldRetry (NetworkError msg sc)
         then executeWithRetry budget operation (n + 1) (sleep (calculateRetryDelay n) w1)
         else (Inl (NetworkError msg sc), w1))"
    using a executeWithRetry_failure[where operation=operation and w=w and n=n and budget=budget
        and err="NetworkError msg sc" and ?w1.0=w1] by blast
  have s: "sleep (calculateRetryDelay n) w1 = w1\<lparr>sleeps := sleeps w1 @ [min (1000 * 2 ^ (n - 1)) 10000]\<rparr>"
    by (simp add: sleep_def calculateRetryDelay_def)
  show "executeWithRetry budget operation n w =
        (if int n < budget \<and> (sc = None \<or> (\<exists>s. sc = Some s \<and> 500 \<le> s))
         then executeWithRetry budget operation (n + 1)
                (w1\<lparr>sleeps := sleeps w1 @ [min (1000 * 2 ^ (n - 1)) 10000]\<rparr>)
         else (Inl (NetworkError msg sc), w1))"
    unfolding e r s ..
next
  show "(\<exists>data. fst (axios_request P remote inst m url body w) = Inr data) \<or>
    (\<exists>msg' sc'. fst (axios_request P remote inst m url body w) = Inl (NetworkError msg' sc'))"
  proof (cases "remote (requests w) inst m url body")
    case (AxiosResponse x)
    then show ?thesis by (simp add: axios_request_result responseInterceptor_cases)
  next
    case (AxiosError resp rq em)
    then show ?thesis
      by (cases resp) (auto simp: axios_request_result responseInterceptor_def)
  qed
next
  assume a: "3 \<le> retries c \<and>
    remote (requests w) (client c) m url body = AxiosError (Some (500, dm0)) rq0 msg0 \<and>
    remote (requests w + 1) (client c) m url body = AxiosError (Some (500, dm1)) rq1 msg1 \<and>
    remote (requests w + 2) (client c) m url body = AxiosResponse d"
  then have b: "3 \<le> retries c"
    and r0: "remote (requests w) (client c) m url body = AxiosError (Some (500, dm0)) rq0 msg0"
    and r1: "remote (requests w + 1) (client c) m url body = AxiosError (Some (500, dm1)) rq1 msg1"
    and r2: "remote (requests w + 2) (client c) m url body = AxiosResponse d"
    by simp_all
  show "fst (executeWithRetry (retries c) (axios_request P remote (client c) m url body) 1 w) = Inr d"
    by (rule scenario_500_500_ok(1)[where remote=remote and w=w and inst="client c" and m=m and url=url and body=body, OF b r0 r1 r2])
  show "sleeps (snd (executeWithRetry (retries c) (axios_request P remote (client c) m url body) 1 w))
        = sleeps w @ [1000, 2000]"
    by (rule scenario_500_500_ok(2)[where remote=remote and w=w and inst="client c" and m=m and url=url and body=body, OF b r0 r1 r2])
  show "requests (snd (executeWithRetry (retries c) (axios_request P remote (client c) m url body) 1 w))
        = requests w + 3"
    by (rule scenario_500_500_ok(3)[where remote=remote and w=w and inst="client c" and m=m and url=url and body=body, OF b r0 r1 r2])
next
  assume a: "remote (requests w) (client c) m url body = AxiosError (Some (404, dm)) rq msg4"
  show "\<exists>msg'. fst (executeWithRetry (retries c) (axios_request P remote (client c) m url body) 1 w)
                = Inl (NetworkError msg' (Some 404))"
    by (rule scenario_404(1)[where remote=remote and w=w and inst="client c" and m=m and url=url and body=body, OF a])
  show "sleeps (snd (executeWithRetry (retries c) (axios_request P remote (client c) m url body) 1 w))
        = sleeps w"
    by (rule scenario_404(2)[where remote=remote and w=w and inst="client c" and m=m and url=url and body=body, OF a])
  show "requests (snd (executeWithRetry (retries c) (axios_request P remote (client c) m url body) 1 w))
        = requests w + 1"
    by (rule scenario_404(3)[where remote=remote and w=w and inst="client c" and m=m and url=url and body=body, OF a])
qed

theorem executeWithRetry_policy_witness:
  "retries test_client = 3 \<and>
   fst (HttpClient_post test_platform flaky_remote test_client ''/payments'' (None :: unit option)
          fresh_world) = Inr ''ok'' \<and>
   sleeps (snd (HttpClient_post test_platform flaky_remote test_client ''/payments''
                  (None :: unit option) fresh_world)) = [1000, 2000] \<and>
   requests (snd (HttpClient_post test_platform flaky_remote test_client ''/payments''
                    (None :: unit option) fresh_world)) = 3 \<and>
   (\<exists>msg'. fst (HttpClient_get test_platform (missing_remote :: (unit, string) remote) test_client
                   ''/payments/p1'' fresh_world) = Inl (NetworkError msg' (Some 404))) \<and>
   sleeps (snd (HttpClient_get test_platform (missing_remote :: (unit, string) remote) test_client
                  ''/payments/p1'' fresh_world)) = [] \<and>
   requests (snd (HttpClient_get test_platform (missing_remote :: (unit, string) remote) test_client
                    ''/payments/p1'' fresh_world)) = 1 \<and>
   executeWithRetry 3
     (axios_request test_platform flaky_remote (client test_client) POST ''/payments''
        (None :: unit option)) 1 fresh_world =
   executeWithRetry 3
     (axios_request test_platform flaky_remote (client test_client) POST ''/payments''
        (None :: unit option)) 2 (fresh_world\<lparr>requests := 1, sleeps := [1000]\<rparr>) \<and>
   executeWithRetry 3
     (axios_request test_platform flaky_remote (client test_client) POST ''/payments''
        (None :: unit option)) 3 (fresh_world\<lparr>requests := 2, sleeps := [1000, 2000]\<rparr>) =
   (Inr ''ok'', fresh_world\<lparr>requests := 3, sleeps := [1000, 2000]\<rparr>)"
proof -
  let ?op = "axios_request test_platform flaky_remote (client test_client) POST ''/payments''
        (None :: unit option)"
  have b: "retries test_client = 3"
    by (simp add: test_client_def HttpClient_new_def or_default_def Let_def)
  have f0: "flaky_remote (requests fresh_world) (client test_client) POST ''/payments'' (None :: unit option)
      = AxiosError (Some (500, None)) True ''Request failed with status code 500''"
    and f1: "flaky_remote (requests fresh_world + 1) (client test_client) POST ''/payments'' (None :: unit option)
      = AxiosError (Some (500, None)) True ''Request failed with status code 500''"
    and f2: "flaky_remote (requests fresh_world + 2) (client test_client) POST ''/payments'' (None :: unit option)
      = AxiosResponse ''ok''"
    by (simp_all add: flaky_remote_def fresh_world_def)
  have m0: "missing_remote (requests fresh_world) (client test_client) GET ''/payments/p1'' (None :: unit option)
      = AxiosError (Some (404, Some ''not found'')) True ''Request failed with status code 404''"
    by (simp add: missing_remote_def)
  have o0: "?op fresh_world =
      (Inl (NetworkError ''HTTP 500: Request failed with status code 500'' (Some 500)),
       fresh_world\<lparr>requests := 1\<rparr>)"
    by (simp add: axios_request_def requestInterceptor_def test_platform_def fresh_world_def
        flaky_remote_def responseInterceptor_def truthy_def decimal.simps)
  have o2: "?op (fresh_world\<lparr>requests := 2, sleeps := [1000, 2000]\<rparr>) =
      (Inr ''ok'', fresh_world\<lparr>requests := 3, sleeps := [1000, 2000]\<rparr>)"
    by (simp add: axios_request_def requestInterceptor_def test_platform_def fresh_world_def
        flaky_remote_def responseInterceptor_def)
  have A: "fst (HttpClient_post test_platform flaky_remote test_client ''/payments'' (None :: unit option)
          fresh_world) = Inr ''ok'' \<and>
   sleeps (snd (HttpClient_post test_platform flaky_remote test_client ''/payments''
                  (None :: unit option) fresh_world)) = [1000, 2000] \<and>
   requests (snd (HttpClient_post test_platform flaky_remote test_client ''/payments''
                    (None :: unit option) fresh_world)) = 3"
    using executeWithRetry_policy [where remote = flaky_remote and c = test_client and m = POST
        and url = "''/payments''" and body = "None :: unit option" and w = fresh_world
        and P = test_platform and d = "''ok''" and ?dm0.0 = None and ?dm1.0 = None and ?rq0.0 = True and ?rq1.0 = True
        and ?msg0.0 = "''Request failed with status code 500''"
        and ?msg1.0 = "''Request failed with status code 500''",
        THEN conjunct2, THEN conjunct2, THEN conjunct2, THEN conjunct1] b f0 f1 f2
    by (simp add: HttpClient_post_def fresh_world_def)
  have B: "(\<exists>msg'. fst (HttpClient_get test_platform (missing_remote :: (unit, string) remote) test_client
                   ''/payments/p1'' fresh_world) = Inl (NetworkError msg' (Some 404))) \<and>
   sleeps (snd (HttpClient_get test_platform (missing_remote :: (unit, string) remote) test_client
                  ''/payments/p1'' fresh_world)) = [] \<and>
   requests (snd (HttpClient_get test_platform (missing_remote :: (unit, string) remote) test_client
                    ''/payments/p1'' fresh_world)) = 1"
    using executeWithRetry_policy [where remote = "missing_remote :: (unit, string) remote" and c = test_client and m = GET
        and url = "''/payments/p1''" and body = "None :: unit option" and w = fresh_world
        and P = test_platform and dm = "Some ''not found''" and rq = True
        and ?msg4.0 = "''Request failed with status code 404''",
        THEN conjunct2, THEN conjunct2, THEN conjunct2, THEN conjunct2] m0
    by (simp add: HttpClient_get_def fresh_world_def)
  have C: "executeWithRetry 3 ?op 1 fresh_world =
      executeWithRetry 3 ?op 2 (fresh_world\<lparr>requests := 1, sleeps := [1000]\<rparr>)"
    using executeWithRetry_policy [where operation = ?op and w = fresh_world and n = 1 and budget = 3
        and msg = "''HTTP 500: Request failed with status code 500''" and sc = "Some 500"
        and ?w1.0 = "fresh_world\<lparr>requests := 1\<rparr>", THEN conjunct2, THEN conjunct1] o0
    by (simp add: fresh_world_def numeral_2_eq_2)
  have D: "executeWithRetry 3 ?op 3 (fresh_world\<lparr>requests := 2, sleeps := [1000, 2000]\<rparr>) =
      (Inr ''ok'', fresh_world\<lparr>requests := 3, sleeps := [1000, 2000]\<rparr>)"
    using executeWithRetry_policy [where operation = ?op
        and w = "fresh_world\<lparr>requests := 2, sleeps := [1000, 2000]\<rparr>" and n = 3 and budget = 3
        and d = "''ok''" and ?w1.0 = "fresh_world\<lparr>requests := 3, sleeps := [1000, 2000]\<rparr>",
        THEN conjunct1] o2
    by simp
  show ?thesis using b A B C D by simp
qed

section \<open>Fixed-point formatting\<close>

lemma decimal_small: "n < 10 \<Longrightarrow> decimal n = [''0123456789'' ! n]"
  by (subst decimal.simps) simp

lemma decimal_large: "10 \<le> n \<Longrightarrow> decimal n = decimal (n div 10) @ [''0123456789'' ! (n mod 10)]"
  by (subst decimal.simps) simp

lemma length_decimal_pos: "0 < length (decimal n)"
  by (subst decimal.simps) simp

lemma length_decimal_large: "10 \<le> n \<Longrightarrow> 2 \<le> length (decimal n)"
  using length_decimal_pos[of "n div 10"] by (simp add: decimal_large Suc_le_eq)

lemma length_decimal_100: "100 \<le> n \<Longrightarrow> 3 \<le> length (decimal n)"
  using length_decimal_large[of "n div 10"] by (simp add: decimal_large)

lemma length_decimal_lt_100: "10 \<le> n \<Longrightarrow> n < 100 \<Longrightarrow> length (decimal n) = 2"
  by (simp add: decimal_large decimal_small)

lemma decimal_100:
  "100 \<le> n \<Longrightarrow>
   decimal n = decimal (n div 100) @ [''0123456789'' ! (n div 10 mod 10), ''0123456789'' ! (n mod 10)]"
proof -
  assume h: "100 \<le> n"
  then have a: "10 \<le> n" and b: "10 \<le> n div 10" by simp_all
  have c: "n div 10 div 10 = n div 100" by (simp add: div_mult2_eq[symmetric])
  show ?thesis
    using decimal_large[OF a] decimal_large[OF b] c by simp
qed

lemma fixed_point:
  "(let m = decimal n;
        m' = (if length m \<le> 2 then replicate (3 - length m) CHR ''0'' @ m else m);
        k = length m'
    in take (k - 2) m' @ ''.'' @ drop (k - 2) m') =
   decimal (n div 100) @ ''.'' @ [''0123456789'' ! (n div 10 mod 10), ''0123456789'' ! (n mod 10)]"
proof -
  consider "n < 10" | "10 \<le> n" "n < 100" | "100 \<le> n" by linarith
  then show ?thesis
  proof cases
    case 1
    then show ?thesis by (simp add: decimal_small Let_def numeral_3_eq_3 numeral_2_eq_2)
  next
    case 2
    then have "n div 100 = 0" by simp
    with 2 show ?thesis
      by (simp add: decimal_large[of n] decimal_small Let_def numeral_3_eq_3 numeral_2_eq_2)
  next
    case 3
    have l: "\<not> length (decimal n) \<le> 2" using length_decimal_100[OF 3] by simp
    have k: "length (decimal n) - 2 = length (decimal (n div 100))"
      by (simp add: decimal_100[OF 3])
    show ?thesis
      using l unfolding Let_def
      by (simp add: k) (simp add: decimal_100[OF 3])
  qed
qed

lemma toFixed2_finite:
  assumes "\<bar>r\<bar> < 10 ^ 21"
  shows "toFixed2 f (Finite r) =
     (if r < 0 then ''-'' else '''') @
     decimal (nat \<lfloor>\<bar>r\<bar> * 100 + 1 / 2\<rfloor> div 100) @ ''.'' @
     [''0123456789'' ! (nat \<lfloor>\<bar>r\<bar> * 100 + 1 / 2\<rfloor> div 10 mod 10),
      ''0123456789'' ! (nat \<lfloor>\<bar>r\<bar> * 100 + 1 / 2\<rfloor> mod 10)]"
proof -
  have "\<not> 10 ^ 21 \<le> \<bar>r\<bar>" using assms by simp
  then show ?thesis
    unfolding toFixed2_def using fixed_point[of "nat \<lfloor>\<bar>r\<bar> * 100 + 1 / 2\<rfloor>"]
    by (simp add: Let_def)
qed

section \<open>Construction of the adapter\<close>

lemma normalizeConfig_world:
  "transports (snd (normalizeConfig c w)) = transports w"
  "requests (snd (normalizeConfig c w)) = requests w"
  "sleeps (snd (normalizeConfig c w)) = sleeps w"
  by (simp_all add: normalizeConfig_def)

lemma PeachPaymentsGateway_new_invalid:
  assumes "PeachPaymentsConfigSchema P (fst (normalizeConfig c w)) \<noteq> []"
  shows "PeachPaymentsGateway_new P c w =
     (Inl (ValidationError
             (''Invalid Peach Payments configuration: '' @
                z_message P (PeachPaymentsConfigSchema P (fst (normalizeConfig c w)))) None),
      snd (normalizeConfig c w))"
  using assms by (simp add: PeachPaymentsGateway_new_def Let_def case_prod_beta)

lemma PeachPaymentsGateway_new_valid:
  assumes "PeachPaymentsConfigSchema P (fst (normalizeConfig c w)) = []"
  shows "\<exists>g. PeachPaymentsGateway_new P c w =
             (Inr g, (snd (normalizeConfig c w))
                       \<lparr>transports := transports (snd (normalizeConfig c w)) @ [httpClient g]\<rparr>) \<and>
           peachConfig g = fst (normalizeConfig c w) \<and>
           ax_baseURL (client (httpClient g)) = getApiUrlForConfig (fst (normalizeConfig c w)) \<and>
           name g = ''PeachPayments'' \<and>
           supportedMethods g = [CARD, EFT, MOBILE_WALLET]"
  using assms
  by (simp add: PeachPaymentsGateway_new_def Let_def case_prod_beta HttpClient_new_def)

lemma PeachPaymentsGateway_new_Inr:
  assumes "PeachPaymentsGateway_new P c w = (Inr g, w')"
  shows "peachConfig g = fst (normalizeConfig c w)"
    and "ax_baseURL (client (httpClient g)) = getApiUrlForConfig (fst (normalizeConfig c w))"
    and "PeachPaymentsConfigSchema P (fst (normalizeConfig c w)) = []"
    and "transports w' = transports w @ [httpClient g]"
proof -
  show v: "PeachPaymentsConfigSchema P (fst (normalizeConfig c w)) = []"
    using assms PeachPaymentsGateway_new_invalid[of P c w] by auto
  from PeachPaymentsGateway_new_valid[OF v] assms
  show "peachConfig g = fst (normalizeConfig c w)"
    and "ax_baseURL (client (httpClient g)) = getApiUrlForConfig (fst (normalizeConfig c w))"
    and "transports w' = transports w @ [httpClient g]"
    by (auto simp: normalizeConfig_world)
qed

text \<open>
  C3. A legacy configuration (a non-empty \<open>apiUrl\<close>, \<open>sandbox\<close> defined, no
  \<open>environment\<close>) is normalized to the environment \<open>SANDBOX\<close> when \<open>sandbox\<close> is true and
  \<open>PRODUCTION\<close> when it is false, and its endpoint is the given \<open>apiUrl\<close>: that is what
  \<open>getApiUrlForConfig\<close> returns, and what the adapter and its transport hold whenever the
  construction succeeds. Whenever \<open>apiUrl\<close> is present (non-empty) it is the endpoint,
  whatever the environment says.
\<close>

theorem legacy_config_normalized:
  "(truthy (apiUrl c) \<and> sandbox c = Some sb \<and> \<not> truthy (environment c) \<longrightarrow>
      environment (fst (normalizeConfig c w)) = Some (if sb then SANDBOX else PRODUCTION) \<and>
      getApiUrlForConfig (fst (normalizeConfig c w)) = apiUrl c \<and>
      (\<forall>g w'. PeachPaymentsGateway_new P c w = (Inr g, w') \<longrightarrow>
         environment (peachConfig g) = Some (if sb then SANDBOX else PRODUCTION) \<and>
         ax_baseURL (client (httpClient g)) = apiUrl c)) \<and>
   (truthy (apiUrl c) \<longrightarrow>
      getApiUrlForConfig c = apiUrl c \<and>
      (\<forall>g w'. PeachPaymentsGateway_new P c w = (Inr g, w') \<longrightarrow>
         ax_baseURL (client (httpClient g)) = apiUrl c))"
proof (intro conjI impI allI)
  assume h: "truthy (apiUrl c) \<and> sandbox c = Some sb \<and> \<not> truthy (environment c)"
  then show e: "environment (fst (normalizeConfig c w)) = Some (if sb then SANDBOX else PRODUCTION)"
    by (simp add: normalizeConfig_def)
  from h show u: "getApiUrlForConfig (fst (normalizeConfig c w)) = apiUrl c"
    by (simp add: normalizeConfig_def getApiUrlForConfig_def)
  fix g w'
  assume n: "PeachPaymentsGateway_new P c w = (Inr g, w')"
  show "environment (peachConfig g) = Some (if sb then SANDBOX else PRODUCTION)"
    using PeachPaymentsGateway_new_Inr(1)[OF n] e by simp
  show "ax_baseURL (client (httpClient g)) = apiUrl c"
    using PeachPaymentsGateway_new_Inr(2)[OF n] u by simp
next
  assume t: "truthy (apiUrl c)"
  then show "getApiUrlForConfig c = apiUrl c"
    by (simp add: getApiUrlForConfig_def)
  fix g w'
  assume n: "PeachPaymentsGateway_new P c w = (Inr g, w')"
  have "getApiUrlForConfig (fst (normalizeConfig c w)) = apiUrl c"
    using t by (simp add: normalizeConfig_def getApiUrlForConfig_def)
  then show "ax_baseURL (client (httpClient g)) = apiUrl c"
    using PeachPaymentsGateway_new_Inr(2)[OF n] by simp
qed


theorem legacy_config_normalized_witness:
  "truthy (apiUrl legacy_config) \<and> sandbox legacy_config = Some False \<and>
   \<not> truthy (environment legacy_config) \<and>
   getApiUrlForConfig (fst (normalizeConfig legacy_config fresh_world))
     = Some ''https://legacy.example.com'' \<and>
   (\<exists>g w'. PeachPaymentsGateway_new test_platform legacy_config fresh_world = (Inr g, w') \<and>
      environment (peachConfig g) = Some PRODUCTION \<and>
      ax_baseURL (client (httpClient g)) = Some ''https://legacy.example.com'' \<and>
      ax_baseURL (client (httpClient g)) \<noteq> map_of PEACH_API_URLS PRODUCTION)"
proof -
  have h: "truthy (apiUrl legacy_config) \<and> sandbox legacy_config = Some False \<and>
           \<not> truthy (environment legacy_config)"
    by (simp add: legacy_config_def truthy_def)
  have u: "apiUrl legacy_config = Some ''https://legacy.example.com''"
    by (simp add: legacy_config_def)
  note T = legacy_config_normalized [where c = legacy_config and sb = False and w = fresh_world
      and P = test_platform, THEN conjunct1, THEN mp, OF h]
  have v: "PeachPaymentsConfigSchema test_platform (fst (normalizeConfig legacy_config fresh_world)) = []"
    by (simp add: normalizeConfig_def legacy_config_def truthy_def PeachPaymentsConfigSchema_def
        min1_def optional_positive_def optional_url_def test_platform_def SANDBOX_def PRODUCTION_def)
  obtain g w' where n: "PeachPaymentsGateway_new test_platform legacy_config fresh_world = (Inr g, w')"
    using PeachPaymentsGateway_new_valid[OF v] by blast
  have e: "environment (peachConfig g) = Some PRODUCTION"
    and b: "ax_baseURL (client (httpClient g)) = Some ''https://legacy.example.com''"
    using T n u by simp_all
  have t: "map_of PEACH_API_URLS PRODUCTION \<noteq> Some ''https://legacy.example.com''"
    by (simp add: PEACH_API_URLS_def SANDBOX_def PRODUCTION_def)
  have a: "getApiUrlForConfig (fst (normalizeConfig legacy_config fresh_world))
     = Some ''https://legacy.example.com''"
    using T u by simp
  show ?thesis using h a n e b t by auto
qed

lemma normalizeConfig_credentials:
  "entityId (fst (normalizeConfig c w)) = entityId c"
  "username (fst (normalizeConfig c w)) = username c"
  "password (fst (normalizeConfig c w)) = password c"
  by (simp_all add: normalizeConfig_def)

text \<open>
  C8. A configuration with an empty \<open>entityId\<close>, an empty \<open>username\<close>, an empty
  \<open>password\<close>, or, after the legacy normalization, an environment outside the enum makes
  the construction of the adapter throw a \<open>ValidationError\<close>, and no transport has been
  constructed and no request sent by then.
\<close>

theorem malformed_config_rejected:
  "entityId c = [] \<or> username c = [] \<or> password c = [] \<or>
   (environment (fst (normalizeConfig c w)) \<noteq> Some SANDBOX \<and>
    environment (fst (normalizeConfig c w)) \<noteq> Some PRODUCTION) \<Longrightarrow>
   fst (PeachPaymentsGateway_new P c w) =
     Inl (ValidationError
            (''Invalid Peach Payments configuration: '' @
               z_message P (PeachPaymentsConfigSchema P (fst (normalizeConfig c w)))) None) \<and>
   transports (snd (PeachPaymentsGateway_new P c w)) = transports w \<and>
   requests (snd (PeachPaymentsGateway_new P c w)) = requests w"
proof -
  assume h: "entityId c = [] \<or> username c = [] \<or> password c = [] \<or>
   (environment (fst (normalizeConfig c w)) \<noteq> Some SANDBOX \<and>
    environment (fst (normalizeConfig c w)) \<noteq> Some PRODUCTION)"
  have "PeachPaymentsConfigSchema P (fst (normalizeConfig c w)) \<noteq> []"
    using h by (auto simp: PeachPaymentsConfigSchema_def min1_def normalizeConfig_credentials)
  from PeachPaymentsGateway_new_invalid[OF this] show ?thesis
    by (simp add: normalizeConfig_world)
qed

theorem malformed_config_rejected_witness:
  "(\<exists>msg. fst (PeachPaymentsGateway_new test_platform (test_config\<lparr>entityId := ''''\<rparr>) fresh_world)
           = Inl (ValidationError msg None)) \<and>
   transports (snd (PeachPaymentsGateway_new test_platform (test_config\<lparr>entityId := ''''\<rparr>)
                      fresh_world)) = [] \<and>
   (\<exists>msg. fst (PeachPaymentsGateway_new test_platform (test_config\<lparr>username := ''''\<rparr>) fresh_world)
           = Inl (ValidationError msg None)) \<and>
   transports (snd (PeachPaymentsGateway_new test_platform (test_config\<lparr>username := ''''\<rparr>)
                      fresh_world)) = [] \<and>
   (\<exists>msg. fst (PeachPaymentsGateway_new test_platform (test_config\<lparr>password := ''''\<rparr>) fresh_world)
           = Inl (ValidationError msg None)) \<and>
   transports (snd (PeachPaymentsGateway_new test_platform (test_config\<lparr>password := ''''\<rparr>)
                      fresh_world)) = [] \<and>
   fst (PeachPaymentsGateway_new test_platform (test_config\<lparr>environment := Some ''invalid''\<rparr>)
          fresh_world)
     = Inl (ValidationError ''Invalid Peach Payments configuration: [environment]'' None) \<and>
   transports (snd (PeachPaymentsGateway_new test_platform
                      (test_config\<lparr>environment := Some ''invalid''\<rparr>) fresh_world)) = []"
proof -
  have 1: "entityId (test_config\<lparr>entityId := ''''\<rparr>) = []" by simp
  have 2: "username (test_config\<lparr>username := ''''\<rparr>) = []" by simp
  have 3: "password (test_config\<lparr>password := ''''\<rparr>) = []" by simp
  have n: "fst (normalizeConfig (test_config\<lparr>environment := Some ''invalid''\<rparr>) fresh_world)
      = test_config\<lparr>environment := Some ''invalid''\<rparr>"
    by (simp add: normalizeConfig_def test_config_def truthy_def)
  have 4: "environment (fst (normalizeConfig (test_config\<lparr>environment := Some ''invalid''\<rparr>)
                fresh_world)) \<noteq> Some SANDBOX \<and>
           environment (fst (normalizeConfig (test_config\<lparr>environment := Some ''invalid''\<rparr>)
                fresh_world)) \<noteq> Some PRODUCTION"
    unfolding n by (simp add: SANDBOX_def PRODUCTION_def)
  have s: "PeachPaymentsConfigSchema test_platform (test_config\<lparr>environment := Some ''invalid''\<rparr>)
      = [''environment'']"
    by (simp add: PeachPaymentsConfigSchema_def test_config_def min1_def optional_positive_def
        optional_url_def SANDBOX_def PRODUCTION_def)
  have m: "z_message test_platform [''environment''] = ''[environment]''"
    by (simp add: test_platform_def)
  have t: "transports fresh_world = []" by (simp add: fresh_world_def)
  show ?thesis
    using malformed_config_rejected [of "test_config\<lparr>entityId := ''''\<rparr>" fresh_world test_platform, OF disjI1, OF 1]
      malformed_config_rejected [of "test_config\<lparr>username := ''''\<rparr>" fresh_world test_platform,
        OF disjI2, OF disjI1, OF 2]
      malformed_config_rejected [of "test_config\<lparr>password := ''''\<rparr>" fresh_world test_platform,
        OF disjI2, OF disjI2, OF disjI1, OF 3]
      malformed_config_rejected [of "test_config\<lparr>environment := Some ''invalid''\<rparr>" fresh_world
        test_platform, OF disjI2, OF disjI2, OF disjI2, OF 4]
    unfolding n s m t by simp
qed

section \<open>Orchestrator\<close>

lemma PayLens_new_none:
  "peachPayments cfg = None \<Longrightarrow>
   PayLens_new P cfg w =
     (Inl (ConfigurationError
             ''No payment gateways configured. Please provide at least one gateway configuration.''
             None None), w)"
  by (simp add: PayLens_new_def initializeGateways_def)

lemma PayLens_new_ok:
  "peachPayments cfg = Some pc \<Longrightarrow> PeachPaymentsGateway_new P pc w = (Inr g, w1) \<Longrightarrow>
   PayLens_new P cfg w = (Inr \<lparr> gateways = [(''peach'', g)], defaultGateway = Some ''peach'' \<rparr>, w1)"
  by (simp add: PayLens_new_def initializeGateways_def truthy_def Let_def)

lemma PayLens_new_failed:
  "peachPayments cfg = Some pc \<Longrightarrow> PeachPaymentsGateway_new P pc w = (Inl e, w1) \<Longrightarrow>
   PayLens_new P cfg w =
     (Inl (ConfigurationError (''Failed to initialize Peach Payments gateway: '' @ message e)
             (Some ''peachPayments'') (Some e)), w1)"
  by (simp add: PayLens_new_def initializeGateways_def)

lemma test_gateway_constructed:
  "PeachPaymentsGateway_new test_platform test_config fresh_world =
     (Inr test_gateway, fresh_world\<lparr>transports := [httpClient test_gateway]\<rparr>)"
  by (simp add: PeachPaymentsGateway_new_def normalizeConfig_def test_config_def truthy_def
      PeachPaymentsConfigSchema_def min1_def optional_positive_def optional_url_def Let_def
      getApiUrlForConfig_def PEACH_API_URLS_def HttpClient_new_def or_default_def spread_def
      createAuthHeader_def test_platform_def test_gateway_def fresh_world_def)

lemma executeWithRetry_requests:
  assumes "\<And>w. requests (snd (operation w)) = Suc (requests w)"
  shows "requests w < requests (snd (executeWithRetry budget operation n w))"
  using assms
proof (induction budget operation n w rule: executeWithRetry.induct)
  case (1 budget operation attempt w)
  obtain r w1 where o: "operation w = (r, w1)" by (cases "operation w")
  have w1: "requests w1 = Suc (requests w)" using "1.prems"[of w] o by simp
  show ?case
  proof (cases r)
    case (Inr d)
    then show ?thesis using o w1 by (subst executeWithRetry.simps) simp
  next
    case (Inl err)
    show ?thesis
    proof (cases "int attempt < budget \<and> shouldRetry err")
      case True
      have "requests (sleep (calculateRetryDelay attempt) w1)
            < requests (snd (executeWithRetry budget operation (attempt + 1)
                               (sleep (calculateRetryDelay attempt) w1)))"
        using "1.IH"[OF o[symmetric] Inl True] "1.prems" by simp
      then have "requests w < requests (snd (executeWithRetry budget operation (attempt + 1)
                               (sleep (calculateRetryDelay attempt) w1)))"
        using w1 by (simp add: sleep_def)
      then show ?thesis using o Inl True by (subst executeWithRetry.simps) simp
    next
      case False
      then show ?thesis using o Inl w1 by (subst executeWithRetry.simps) auto
    qed
  qed
qed

lemma axios_request_requests:
  "requests (snd (axios_request P remote inst m url body w)) = Suc (requests w)"
  by (simp add: axios_request_def Let_def requestInterceptor_def)

lemma processPayment_requests:
  "requests w < requests (snd (processPayment P remote g request w))"
proof -
  let ?r = "HttpClient_post P remote (httpClient g) ''/payments''
              (Some (mapToPaymentRequest P g request)) w"
  have "requests w < requests (snd ?r)"
    unfolding HttpClient_post_def
    by (rule executeWithRetry_requests) (rule axios_request_requests)
  moreover have "snd (processPayment P remote g request w) = snd ?r"
    by (simp add: processPayment_def Let_def split: prod.splits sum.splits error.splits)
  ultimately show ?thesis by simp
qed

text \<open>
  C4. Construction of the orchestrator. Without a gateway configuration it throws a
  \<open>ConfigurationError\<close>. With the one gateway configuration there is, when the adapter is
  constructed, the adapter is registered under the name \<open>peach\<close> and is the default
  (the gateway that a call without a name resolves to), and \<open>isGatewayAvailable\<close> is true
  for \<open>peach\<close> and false for every other name. When the construction of the adapter
  fails, the failure is wrapped into a \<open>ConfigurationError\<close> whose parameter names the
  slot \<open>peachPayments\<close> and whose cause is the failure. Every error of the construction
  is a \<open>ConfigurationError\<close>, and an orchestrator that is constructed has a gateway.
\<close>

theorem PayLens_construction:
  "(peachPayments cfg = None \<longrightarrow>
      PayLens_new P cfg w =
        (Inl (ConfigurationError
                ''No payment gateways configured. Please provide at least one gateway configuration.''
                None None), w)) \<and>
   (peachPayments cfg = Some pc \<and> PeachPaymentsGateway_new P pc w = (Inr g, w1) \<longrightarrow>
      PayLens_new P cfg w =
        (Inr \<lparr> gateways = [(''peach'', g)], defaultGateway = Some ''peach'' \<rparr>, w1) \<and>
      (\<forall>n. isGatewayAvailable \<lparr> gateways = [(''peach'', g)], defaultGateway = Some ''peach'' \<rparr> n
             = (n = ''peach'')) \<and>
      getGateway \<lparr> gateways = [(''peach'', g)], defaultGateway = Some ''peach'' \<rparr> None = Inr g) \<and>
   (peachPayments cfg = Some pc \<and> PeachPaymentsGateway_new P pc w = (Inl e, w1) \<longrightarrow>
      PayLens_new P cfg w =
        (Inl (ConfigurationError (''Failed to initialize Peach Payments gateway: '' @ message e)
                (Some ''peachPayments'') (Some e)), w1)) \<and>
   (\<forall>err. fst (PayLens_new P cfg w) = Inl err \<longrightarrow> (\<exists>m p c. err = ConfigurationError m p c)) \<and>
   (\<forall>sdk. fst (PayLens_new P cfg w) = Inr sdk \<longrightarrow> gateways sdk \<noteq> [])"
proof (intro conjI impI allI)
  assume "peachPayments cfg = None"
  then show "PayLens_new P cfg w =
        (Inl (ConfigurationError
                ''No payment gateways configured. Please provide at least one gateway configuration.''
                None None), w)"
    by (rule PayLens_new_none)
next
  assume h: "peachPayments cfg = Some pc \<and> PeachPaymentsGateway_new P pc w = (Inr g, w1)"
  then show "PayLens_new P cfg w =
        (Inr \<lparr> gateways = [(''peach'', g)], defaultGateway = Some ''peach'' \<rparr>, w1)"
    using PayLens_new_ok by blast
  fix n
  show "isGatewayAvailable \<lparr> gateways = [(''peach'', g)], defaultGateway = Some ''peach'' \<rparr> n
             = (n = ''peach'')"
    by (auto simp: isGatewayAvailable_def)
next
  show "getGateway \<lparr> gateways = [(''peach'', g)], defaultGateway = Some ''peach'' \<rparr> None = Inr g"
    by (simp add: getGateway_def truthy_def)
next
  assume h: "peachPayments cfg = Some pc \<and> PeachPaymentsGateway_new P pc w = (Inl e, w1)"
  then show "PayLens_new P cfg w =
        (Inl (ConfigurationError (''Failed to initialize Peach Payments gateway: '' @ message e)
                (Some ''peachPayments'') (Some e)), w1)"
    using PayLens_new_failed by blast
next
  fix err
  assume a: "fst (PayLens_new P cfg w) = Inl err"
  show "\<exists>m p c. err = ConfigurationError m p c"
  proof (cases "peachPayments cfg")
    case None
    from PayLens_new_none[OF None, of P w] a show ?thesis by auto
  next
    case (Some pc')
    obtain r w' where n: "PeachPaymentsGateway_new P pc' w = (r, w')"
      by (cases "PeachPaymentsGateway_new P pc' w")
    show ?thesis
    proof (cases r)
      case (Inl e')
      with PayLens_new_failed[OF Some, of P w e' w'] n a show ?thesis by auto
    next
      case (Inr g')
      with PayLens_new_ok[OF Some, of P w g' w'] n a show ?thesis by auto
    qed
  qed
next
  fix sdk
  assume a: "fst (PayLens_new P cfg w) = Inr sdk"
  show "gateways sdk \<noteq> []"
  proof (cases "peachPayments cfg")
    case None
    from PayLens_new_none[OF None, of P w] a show ?thesis by auto
  next
    case (Some pc')
    obtain r w' where n: "PeachPaymentsGateway_new P pc' w = (r, w')"
      by (cases "PeachPaymentsGateway_new P pc' w")
    show ?thesis
    proof (cases r)
      case (Inl e')
      with PayLens_new_failed[OF Some, of P w e' w'] n a show ?thesis by auto
    next
      case (Inr g')
      with PayLens_new_ok[OF Some, of P w g' w'] n a show ?thesis by auto
    qed
  qed
qed


theorem PayLens_construction_witness:
  "fst (PayLens_new test_platform \<lparr> peachPayments = None \<rparr> fresh_world) =
     Inl (ConfigurationError
            ''No payment gateways configured. Please provide at least one gateway configuration.''
            None None) \<and>
   fst (PayLens_new test_platform \<lparr> peachPayments = Some test_config \<rparr> fresh_world) =
     Inr \<lparr> gateways = [(''peach'', test_gateway)], defaultGateway = Some ''peach'' \<rparr> \<and>
   isGatewayAvailable \<lparr> gateways = [(''peach'', test_gateway)], defaultGateway = Some ''peach'' \<rparr>
     ''peach'' \<and>
   \<not> isGatewayAvailable \<lparr> gateways = [(''peach'', test_gateway)], defaultGateway = Some ''peach'' \<rparr>
     ''payfast'' \<and>
   fst (PayLens_new test_platform \<lparr> peachPayments = Some (test_config\<lparr>entityId := ''''\<rparr>) \<rparr>
          fresh_world) =
     Inl (ConfigurationError
            ''Failed to initialize Peach Payments gateway: Invalid Peach Payments configuration: [entityId]''
            (Some ''peachPayments'')
            (Some (ValidationError ''Invalid Peach Payments configuration: [entityId]'' None)))"
proof -
  have bad: "PeachPaymentsGateway_new test_platform (test_config\<lparr>entityId := ''''\<rparr>) fresh_world =
      (Inl (ValidationError ''Invalid Peach Payments configuration: [entityId]'' None), fresh_world)"
    by (simp add: PeachPaymentsGateway_new_def normalizeConfig_def test_config_def truthy_def
        PeachPaymentsConfigSchema_def min1_def optional_positive_def optional_url_def Let_def
        test_platform_def SANDBOX_def PRODUCTION_def)
  have 1: "peachPayments \<lparr> peachPayments = None \<rparr> = None" by simp
  have 2: "peachPayments \<lparr> peachPayments = Some test_config \<rparr> = Some test_config \<and>
           PeachPaymentsGateway_new test_platform test_config fresh_world =
             (Inr test_gateway, fresh_world\<lparr>transports := [httpClient test_gateway]\<rparr>)"
    using test_gateway_constructed by simp
  have 3: "peachPayments \<lparr> peachPayments = Some (test_config\<lparr>entityId := ''''\<rparr>) \<rparr>
             = Some (test_config\<lparr>entityId := ''''\<rparr>) \<and>
           PeachPaymentsGateway_new test_platform (test_config\<lparr>entityId := ''''\<rparr>) fresh_world =
      (Inl (ValidationError ''Invalid Peach Payments configuration: [entityId]'' None), fresh_world)"
    using bad by simp
  note A = PayLens_construction [where cfg = "\<lparr> peachPayments = None \<rparr>" and P = test_platform
      and w = fresh_world, THEN conjunct1, THEN mp, OF 1]
  note B = PayLens_construction [where cfg = "\<lparr> peachPayments = Some test_config \<rparr>"
      and P = test_platform and w = fresh_world and pc = test_config and g = test_gateway
      and ?w1.0 = "fresh_world\<lparr>transports := [httpClient test_gateway]\<rparr>",
      THEN conjunct2, THEN conjunct1, THEN mp, OF 2]
  note C = PayLens_construction [where cfg = "\<lparr> peachPayments = Some (test_config\<lparr>entityId := ''''\<rparr>) \<rparr>"
      and P = test_platform and w = fresh_world and pc = "test_config\<lparr>entityId := ''''\<rparr>"
      and e = "ValidationError ''Invalid Peach Payments configuration: [entityId]'' None"
      and ?w1.0 = fresh_world,
      THEN conjunct2, THEN conjunct2, THEN conjunct1, THEN mp, OF 3]
  show ?thesis
    using A B C by simp
qed

text \<open>
  C5. A payment request that passes the schema, with a payment method that is not among
  the supported methods of the gateway it resolves to, is rejected by the orchestrator
  with a \<open>ValidationError\<close> that names the gateway and the method, and the world is as
  it was: the adapter has not been called, for a call of its \<open>processPayment\<close> always
  sends a request (it does not check the method itself). \<open>supportsPaymentMethod\<close> is
  membership in the list of supported methods.
\<close>

theorem unsupported_method_rejected:
  "(PaymentRequestSchema P request = [] \<and> getGateway sdk gatewayName = Inr gateway \<and>
    paymentMethod request \<notin> set (supportedMethods gateway) \<longrightarrow>
      PayLens_processPayment P remote sdk request gatewayName w =
        (Inl (ValidationError
                (''Gateway '' @ name gateway @ '' does not support payment method '' @
                   paymentMethod request) None), w)) \<and>
   requests w < requests (snd (processPayment P remote gateway request w)) \<and>
   supportsPaymentMethod gateway m = (m \<in> set (supportedMethods gateway))"
  by (simp add: PayLens_processPayment_def supportsPaymentMethod_def array_includes_def
      processPayment_requests)


theorem unsupported_method_rejected_witness:
  "PaymentRequestSchema test_platform (test_request\<lparr>paymentMethod := BANK_TRANSFER\<rparr>) = [] \<and>
   getGateway \<lparr> gateways = [(''peach'', test_gateway)], defaultGateway = Some ''peach'' \<rparr> None
     = Inr test_gateway \<and>
   BANK_TRANSFER \<notin> set (supportedMethods test_gateway) \<and>
   PayLens_processPayment test_platform (answering (test_payment_response ''000.000.000'' ''ok''))
     \<lparr> gateways = [(''peach'', test_gateway)], defaultGateway = Some ''peach'' \<rparr>
     (test_request\<lparr>paymentMethod := BANK_TRANSFER\<rparr>) None fresh_world =
     (Inl (ValidationError ''Gateway PeachPayments does not support payment method bank_transfer''
             None), fresh_world)"
proof -
  let ?sdk = "\<lparr> gateways = [(''peach'', test_gateway)], defaultGateway = Some ''peach'' \<rparr>"
  let ?req = "test_request\<lparr>paymentMethod := BANK_TRANSFER\<rparr>"
  have v: "PaymentRequestSchema test_platform ?req = []"
    by (simp add: PaymentRequestSchema_def AmountObjectSchema_def AmountSchema_def positive_def
        check_def CustomerSchema_def CardDetailsSchema_def digits_between_def is_digit_def
        optional_url_def test_request_def test_platform_def Currency_values_def
        PaymentMethod_values_def CARD_def EFT_def MOBILE_WALLET_def BANK_TRANSFER_def
        CRYPTOCURRENCY_def)
  have g: "getGateway ?sdk None = Inr test_gateway"
    by (simp add: getGateway_def truthy_def)
  have m: "paymentMethod ?req \<notin> set (supportedMethods test_gateway)"
    by (simp add: test_gateway_def CARD_def EFT_def MOBILE_WALLET_def BANK_TRANSFER_def)
  have h: "PaymentRequestSchema test_platform ?req = [] \<and> getGateway ?sdk None = Inr test_gateway \<and>
           paymentMethod ?req \<notin> set (supportedMethods test_gateway)"
    using v g m by simp
  note T = unsupported_method_rejected [where P = test_platform and request = ?req and sdk = ?sdk
      and gatewayName = None and gateway = test_gateway and w = fresh_world
      and remote = "answering (test_payment_response ''000.000.000'' ''ok'')",
      THEN conjunct1, THEN mp, OF h]
  have n: "''Gateway '' @ name test_gateway @ '' does not support payment method '' @ paymentMethod ?req
      = ''Gateway PeachPayments does not support payment method bank_transfer''"
    by (simp add: test_gateway_def BANK_TRANSFER_def)
  show ?thesis using v g m T unfolding n by simp
qed

section \<open>Response mapping\<close>

text \<open>
  C6. In both mappings to a canonical payment response, that of a payment response and
  that of a status response, \<open>failureReason\<close> is the description of the gateway's result
  when the classified status is \<open>FAILED\<close>, and is undefined for every other status.
\<close>

theorem failureReason_iff_failed:
  "failureReason (mapToPaymentResponse peachResponse originalRequest) =
     (if status (mapToPaymentResponse peachResponse originalRequest) = FAILED
      then Some (result_description (pay_result peachResponse)) else None) \<and>
   failureReason (mapStatusToPaymentResponse P statusResponse) =
     (if status (mapStatusToPaymentResponse P statusResponse) = FAILED
      then Some (result_description (st_result statusResponse)) else None)"
  by (simp add: mapToPaymentResponse_def mapStatusToPaymentResponse_def)

theorem failureReason_iff_failed_witness:
  "status (mapToPaymentResponse (test_payment_response ''000.000.000'' ''Transaction succeeded'')
             test_request) = COMPLETED \<and>
   failureReason (mapToPaymentResponse (test_payment_response ''000.000.000'' ''Transaction succeeded'')
                    test_request) = None \<and>
   status (mapToPaymentResponse (test_payment_response ''000.400.010'' ''Invalid card number'')
             test_request) = FAILED \<and>
   failureReason (mapToPaymentResponse (test_payment_response ''000.400.010'' ''Invalid card number'')
                    test_request) = Some ''Invalid card number'' \<and>
   status (mapStatusToPaymentResponse test_platform
             (test_status_response ''000.200.000'' ''Transaction pending'')) = PROCESSING \<and>
   failureReason (mapStatusToPaymentResponse test_platform
                    (test_status_response ''000.200.000'' ''Transaction pending'')) = None \<and>
   status (mapStatusToPaymentResponse test_platform
             (test_status_response ''900.400.500'' ''System error'')) = FAILED \<and>
   failureReason (mapStatusToPaymentResponse test_platform
                    (test_status_response ''900.400.500'' ''System error'')) = Some ''System error''"
proof -
  have s1: "status (mapToPaymentResponse (test_payment_response ''000.000.000'' ''Transaction succeeded'')
             test_request) = COMPLETED"
    by (simp add: mapToPaymentResponse_def test_payment_response_def mapPaymentStatus_def
        array_includes_def SUCCESS_CODES_def)
  have s2: "status (mapToPaymentResponse (test_payment_response ''000.400.010'' ''Invalid card number'')
             test_request) = FAILED"
    by (simp add: mapToPaymentResponse_def test_payment_response_def mapPaymentStatus_def
        array_includes_def SUCCESS_CODES_def PENDING_CODES_def REJECTED_CODES_def)
  have s3: "status (mapStatusToPaymentResponse test_platform
             (test_status_response ''000.200.000'' ''Transaction pending'')) = PROCESSING"
    by (simp add: mapStatusToPaymentResponse_def test_status_response_def mapPaymentStatus_def
        array_includes_def SUCCESS_CODES_def PENDING_CODES_def)
  have s4: "status (mapStatusToPaymentResponse test_platform
             (test_status_response ''900.400.500'' ''System error'')) = FAILED"
    by (simp add: mapStatusToPaymentResponse_def test_status_response_def mapPaymentStatus_def
        array_includes_def SUCCESS_CODES_def PENDING_CODES_def REJECTED_CODES_def ERROR_CODES_def)
  have d1: "result_description (pay_result (test_payment_response ''000.400.010'' ''Invalid card number''))
      = ''Invalid card number''"
    and d2: "result_description (st_result (test_status_response ''900.400.500'' ''System error''))
      = ''System error''"
    by (simp_all add: test_payment_response_def test_status_response_def)
  show ?thesis
    using failureReason_iff_failed [of "test_payment_response ''000.000.000'' ''Transaction succeeded''"
        test_request test_platform "test_status_response ''000.200.000'' ''Transaction pending''"]
      failureReason_iff_failed [of "test_payment_response ''000.400.010'' ''Invalid card number''"
        test_request test_platform "test_status_response ''900.400.500'' ''System error''"]
    unfolding s1 s2 s3 s4 d1 d2 by simp
qed

section \<open>Calls answered at the first request\<close>

lemma HttpClient_post_first_answer:
  assumes "remote (requests w) (client c) POST url body = AxiosResponse d"
  shows "HttpClient_post P remote c url body w =
           (Inr d, (requestInterceptor P POST url w)\<lparr>requests := Suc (requests w)\<rparr>)"
  unfolding HttpClient_post_def
  by (subst executeWithRetry.simps)
     (simp add: axios_request_def Let_def requestInterceptor_def responseInterceptor_def assms)

lemma HttpClient_get_first_answer:
  assumes "remote (requests w) (client c) GET url None = AxiosResponse d"
  shows "HttpClient_get P remote c url w =
           (Inr d, (requestInterceptor P GET url w)\<lparr>requests := Suc (requests w)\<rparr>)"
  unfolding HttpClient_get_def
  by (subst executeWithRetry.simps)
     (simp add: axios_request_def Let_def requestInterceptor_def responseInterceptor_def assms)

text \<open>
  C7. Round trip. Whatever the request, a gateway response whose result code is in the
  success bucket is mapped to a canonical response with the amount and the payment
  method of the request and the status \<open>COMPLETED\<close>; and when the gateway answers the
  wire form of the request with such a response, \<open>processPayment\<close> returns that canonical
  response.
\<close>

theorem roundtrip_success:
  "(code (pay_result peachResponse) \<in> set SUCCESS_CODES \<longrightarrow>
      res_amount (mapToPaymentResponse peachResponse request) = amount request \<and>
      res_paymentMethod (mapToPaymentResponse peachResponse request) = paymentMethod request \<and>
      status (mapToPaymentResponse peachResponse request) = COMPLETED) \<and>
   (code (pay_result peachResponse) \<in> set SUCCESS_CODES \<and>
    remote (requests w) (client (httpClient g)) POST ''/payments''
      (Some (mapToPaymentRequest P g request)) = AxiosResponse peachResponse \<longrightarrow>
      (\<exists>response w'. processPayment P remote g request w = (Inr response, w') \<and>
         res_amount response = amount request \<and>
         res_paymentMethod response = paymentMethod request \<and>
         status response = COMPLETED))"
proof (intro conjI impI)
  assume s: "code (pay_result peachResponse) \<in> set SUCCESS_CODES"
  then show "status (mapToPaymentResponse peachResponse request) = COMPLETED"
    by (simp add: mapToPaymentResponse_def mapPaymentStatus_def array_includes_def)
  show "res_amount (mapToPaymentResponse peachResponse request) = amount request"
    and "res_paymentMethod (mapToPaymentResponse peachResponse request) = paymentMethod request"
    by (simp_all add: mapToPaymentResponse_def)
next
  assume h: "code (pay_result peachResponse) \<in> set SUCCESS_CODES \<and>
    remote (requests w) (client (httpClient g)) POST ''/payments''
      (Some (mapToPaymentRequest P g request)) = AxiosResponse peachResponse"
  then have p: "processPayment P remote g request w =
      (Inr (mapToPaymentResponse peachResponse request),
       (requestInterceptor P POST ''/payments'' w)\<lparr>requests := Suc (requests w)\<rparr>)"
    by (simp add: processPayment_def Let_def HttpClient_post_first_answer)
  from h have "status (mapToPaymentResponse peachResponse request) = COMPLETED"
    by (simp add: mapToPaymentResponse_def mapPaymentStatus_def array_includes_def)
  with p show "\<exists>response w'. processPayment P remote g request w = (Inr response, w') \<and>
         res_amount response = amount request \<and>
         res_paymentMethod response = paymentMethod request \<and>
         status response = COMPLETED"
    by (simp add: mapToPaymentResponse_def)
qed

theorem roundtrip_success_witness:
  "code (pay_result (test_payment_response ''000.000.000'' ''Transaction succeeded''))
     \<in> set SUCCESS_CODES \<and>
   req_amount (mapToPaymentRequest test_platform test_gateway test_request) = ''100.00'' \<and>
   (\<exists>response w'.
      processPayment test_platform
        (answering (test_payment_response ''000.000.000'' ''Transaction succeeded''))
        test_gateway test_request fresh_world = (Inr response, w') \<and>
      res_amount response = \<lparr> value = Finite 100, currency = ''ZAR'' \<rparr> \<and>
      res_paymentMethod response = CARD \<and>
      status response = COMPLETED)"
proof -
  let ?resp = "test_payment_response ''000.000.000'' ''Transaction succeeded''"
  have c: "code (pay_result ?resp) \<in> set SUCCESS_CODES"
    by (simp add: test_payment_response_def SUCCESS_CODES_def)
  have h: "code (pay_result ?resp) \<in> set SUCCESS_CODES \<and>
    answering ?resp (requests fresh_world) (client (httpClient test_gateway)) POST ''/payments''
      (Some (mapToPaymentRequest test_platform test_gateway test_request)) = AxiosResponse ?resp"
    using c by (simp add: answering_def)
  have n: "nat \<lfloor>\<bar>100 :: rat\<bar> * 100 + 1 / 2\<rfloor> = 10000" by code_simp
  have b: "\<bar>100 :: rat\<bar> < 10 ^ 21" by simp
  have f: "toFixed2 (Number_toString test_platform) (Finite 100) = ''100.00''"
    using toFixed2_finite [OF b, of "Number_toString test_platform"] unfolding n
    by (simp add: decimal.simps)
  have v: "value (amount test_request) = Finite 100" by (simp add: test_request_def)
  have a: "req_amount (mapToPaymentRequest test_platform test_gateway test_request) = ''100.00''"
    by (simp add: mapToPaymentRequest_def v f)
  have r: "amount test_request = \<lparr> value = Finite 100, currency = ''ZAR'' \<rparr>"
    "paymentMethod test_request = CARD"
    by (simp_all add: test_request_def)
  show ?thesis
    using c a roundtrip_success [where peachResponse = ?resp and request = test_request
        and remote = "answering ?resp" and w = fresh_world and g = test_gateway and P = test_platform,
        THEN conjunct2, THEN mp, OF h]
    unfolding r by simp
qed

text \<open>
  C9. The refund response that \<open>mapStatusToRefundResponse\<close> builds has the empty string
  as its \<open>paymentId\<close>, whatever the status response of the gateway is, and so has every
  response that \<open>getRefundStatus\<close> returns.
\<close>

theorem refund_status_paymentId_empty:
  "rr_paymentId (mapStatusToRefundResponse P statusResponse) = '''' \<and>
   (getRefundStatus P remote g refundId w = (Inr response, w') \<longrightarrow> rr_paymentId response = '''')"
proof (intro conjI impI)
  show "rr_paymentId (mapStatusToRefundResponse P statusResponse) = ''''"
    by (simp add: mapStatusToRefundResponse_def)
  assume "getRefundStatus P remote g refundId w = (Inr response, w')"
  then show "rr_paymentId response = ''''"
    by (auto simp: getRefundStatus_def mapStatusToRefundResponse_def split: prod.splits sum.splits)
qed

theorem refund_status_paymentId_empty_witness:
  "getRefundStatus test_platform (answering (test_status_response ''000.000.000'' ''Refunded''))
     test_gateway ''8ac7a4a1'' fresh_world =
     (Inr (mapStatusToRefundResponse test_platform (test_status_response ''000.000.000'' ''Refunded'')),
      fresh_world\<lparr>requests := 1\<rparr>) \<and>
   rr_id (mapStatusToRefundResponse test_platform (test_status_response ''000.000.000'' ''Refunded''))
     = ''8ac7a4a1'' \<and>
   rr_paymentId (mapStatusToRefundResponse test_platform
                   (test_status_response ''000.000.000'' ''Refunded'')) = ''''"
proof -
  let ?resp = "test_status_response ''000.000.000'' ''Refunded''"
  let ?url = "''/payments/'' @ ''8ac7a4a1'' @ ''?entityId='' @ entityId (peachConfig test_gateway)"
  have "answering ?resp (requests fresh_world) (client (httpClient test_gateway)) GET ?url None
          = AxiosResponse ?resp"
    by (simp add: answering_def)
  from HttpClient_get_first_answer[where remote = "answering ?resp" and P = test_platform, OF this]
  have h: "HttpClient_get test_platform (answering ?resp) (httpClient test_gateway) ?url fresh_world =
      (Inr ?resp, fresh_world\<lparr>requests := 1\<rparr>)"
    by (simp add: requestInterceptor_def test_platform_def fresh_world_def)
  have g: "getRefundStatus test_platform (answering ?resp) test_gateway ''8ac7a4a1'' fresh_world =
      (Inr (mapStatusToRefundResponse test_platform ?resp), fresh_world\<lparr>requests := 1\<rparr>)"
    unfolding getRefundStatus_def h by simp
  have i: "rr_id (mapStatusToRefundResponse test_platform ?resp) = ''8ac7a4a1''"
    by (simp add: mapStatusToRefundResponse_def test_status_response_def)
  show ?thesis
    using g i refund_status_paymentId_empty [where P = test_platform and remote = "answering ?resp"
        and g = test_gateway and refundId = "''8ac7a4a1''" and w = fresh_world
        and response = "mapStatusToRefundResponse test_platform ?resp"
        and w' = "fresh_world\<lparr>requests := 1\<rparr>",
        THEN conjunct2, THEN mp, OF g]
    by simp
qed

section \<open>Refund request mapping\<close>





end
